(* ===== verification/Prelude.thy ===== *)
theory Prelude
  imports Main
begin

text \<open>
  Shared vocabulary of the development: the JavaScript string operations the client
  code relies on (\<open>String.prototype.trim\<close>, \<open>split\<close> with a one-character separator,
  \<open>Array.prototype.pop\<close>, \<open>Number.prototype.toString\<close>), the truthiness of strings and of
  possibly-undefined strings that the code's \<open>||\<close> and \<open>&&\<close> test, and the generic lemmas
  on them that the component theories use.  A JavaScript string is modelled as a
  \<open>string\<close> (a list of 8-bit \<open>char\<close>s, i.e. UTF-16 code units below 256); a value that may be
  \<open>undefined\<close> at run time is a \<open>string option\<close>, with \<open>None\<close> for \<open>undefined\<close>.
\<close>

named_theorems js_simps "evaluation rules of the JavaScript string model"

type_synonym js_str = string
type_synonym js_opt_str = "string option"

section \<open>Truthiness and the \<open>||\<close> operator\<close>

text \<open>A string is truthy iff it is not empty; \<open>undefined\<close> is falsy.\<close>

definition truthy :: "js_str \<Rightarrow> bool" where
  "truthy s \<longleftrightarrow> s \<noteq> []"

fun opt_truthy :: "js_opt_str \<Rightarrow> bool" where
  "opt_truthy None = False"
| "opt_truthy (Some s) = truthy s"

text \<open>\<open>a || b\<close> on strings: the left operand when it is truthy, else the right one.\<close>

definition js_or :: "js_str \<Rightarrow> js_str \<Rightarrow> js_str" where
  "js_or a b = (if truthy a then a else b)"

text \<open>\<open>a || b\<close> with \<open>a\<close> possibly \<open>undefined\<close> and \<open>b\<close> a string.\<close>

fun js_or_opt :: "js_opt_str \<Rightarrow> js_str \<Rightarrow> js_str" where
  "js_or_opt None b = b"
| "js_or_opt (Some a) b = js_or a b"

lemma truthy_simps [simp, js_simps]:
  "truthy [] = False" "truthy (c # s) = True"
  by (simp_all add: truthy_def)

lemma js_or_simps [simp, js_simps]:
  "js_or [] b = b" "js_or (c # s) b = c # s"
  by (simp_all add: js_or_def)

lemma opt_truthy_iff: "opt_truthy v \<longleftrightarrow> (\<exists>s. v = Some s \<and> s \<noteq> [])"
  by (cases v) (auto simp: truthy_def)

lemma js_or_opt_truthy [simp]: "opt_truthy v \<Longrightarrow> js_or_opt v b = the v"
  by (cases v) (auto simp: js_or_def)

lemma js_or_opt_nonempty: "b \<noteq> [] \<Longrightarrow> js_or_opt v b \<noteq> []"
  by (cases v) (auto simp: js_or_def truthy_def)

lemma js_or_opt_falsy [simp]: "\<not> opt_truthy v \<Longrightarrow> js_or_opt v b = b"
  by (cases v) (auto simp: js_or_def)

section \<open>\<open>String.prototype.trim\<close>\<close>

text \<open>
  The white space that \<open>trim\<close> removes, restricted to code units below 256: TAB, LF, VT,
  FF, CR (the line terminators and format controls of ECMA-262 \<S>12.2/12.3), SPACE and
  NO-BREAK SPACE.  The next-line control U+0085 is not white space in JavaScript.
\<close>

definition js_ws :: "char \<Rightarrow> bool" where
  "js_ws c \<longleftrightarrow> of_char c \<in> {9, 10, 11, 12, 13, 32, 160 :: nat}"

definition js_trim :: "js_str \<Rightarrow> js_str" where
  "js_trim s = rev (dropWhile js_ws (rev (dropWhile js_ws s)))"

lemma js_trim_Nil [simp, js_simps]: "js_trim [] = []"
  by (simp add: js_trim_def)

lemma all_dropWhile_iff: "(\<forall>x \<in> set (dropWhile P s). P x) \<longleftrightarrow> (\<forall>x \<in> set s. P x)"
  by (induction s) auto

lemma js_trim_empty_iff: "js_trim s = [] \<longleftrightarrow> (\<forall>c \<in> set s. js_ws c)"
  by (simp add: js_trim_def dropWhile_eq_Nil_conv all_dropWhile_iff)

lemma js_trim_Cons_nonws [simp]: "\<not> js_ws c \<Longrightarrow> js_trim (c # s) \<noteq> []"
  by (simp add: js_trim_empty_iff)

lemma js_trim_set: "set (js_trim s) \<subseteq> set s"
  unfolding js_trim_def by (auto dest!: set_dropWhileD)

section \<open>\<open>split\<close> with a one-character separator, and \<open>join\<close>\<close>

text \<open>
  \<open>s.split(c)\<close> for a one-character separator \<open>c\<close>: the pieces between the occurrences of
  \<open>c\<close>, always at least one (\<open>"".split(".")\<close> is \<open>[""]\<close>).
\<close>

fun js_split :: "char \<Rightarrow> js_str \<Rightarrow> js_str list" where
  "js_split c [] = [[]]"
| "js_split c (x # xs) =
     (if x = c then [] # js_split c xs
      else (case js_split c xs of w # ws \<Rightarrow> (x # w) # ws | [] \<Rightarrow> [[x]]))"

text \<open>\<open>ws.join(c)\<close>, the inverse of \<open>split\<close>.\<close>

fun js_join :: "char \<Rightarrow> js_str list \<Rightarrow> js_str" where
  "js_join c [] = []"
| "js_join c [w] = w"
| "js_join c (w # v # ws) = w @ c # js_join c (v # ws)"

text \<open>\<open>Array.prototype.pop\<close> as a read: the last element, \<open>undefined\<close> for \<open>[]\<close>.\<close>

fun js_pop :: "'a list \<Rightarrow> 'a option" where
  "js_pop [] = None"
| "js_pop xs = Some (last xs)"

lemma js_pop_nonempty: "xs \<noteq> [] \<Longrightarrow> js_pop xs = Some (last xs)"
  by (cases xs) auto

lemma rev_drop_take: "rev (dropWhile P (rev s)) @ rev (takeWhile P (rev s)) = s"
  by (simp flip: rev_append)

lemma js_split_nonempty [simp]: "js_split c s \<noteq> []"
  by (induction s) (auto split: list.splits)

lemma js_split_hd: "hd (js_split c s) = takeWhile (\<lambda>x. x \<noteq> c) s"
  by (induction s) (auto split: list.splits)

lemma js_split_no_sep: "c \<notin> set s \<Longrightarrow> js_split c s = [s]"
  by (induction s) auto

lemma js_split_length: "length (js_split c s) = Suc (count_list s c)"
  by (induction s) (auto split: list.splits)

lemma js_split_last: "last (js_split c s) = rev (takeWhile (\<lambda>x. x \<noteq> c) (rev s))"
proof (induction s)
  case Nil
  then show ?case by simp
next
  case (Cons x xs)
  show ?case
  proof (cases "c \<in> set xs")
    case True
    then have "takeWhile (\<lambda>y. y \<noteq> c) (rev xs @ [x]) = takeWhile (\<lambda>y. y \<noteq> c) (rev xs)"
      by (simp add: takeWhile_append1 [where x = c])
    moreover have "count_list xs c \<noteq> 0"
      using True by (simp add: count_list_0_iff)
    then have "2 \<le> length (js_split c xs)"
      by (simp add: js_split_length)
    ultimately show ?thesis using Cons.IH
      by (auto split: list.splits)
  next
    case False
    then have "takeWhile (\<lambda>y. y \<noteq> c) (rev xs @ [x]) = rev xs @ takeWhile (\<lambda>y. y \<noteq> c) [x]"
      by (intro takeWhile_append2) auto
    with False show ?thesis by (simp add: js_split_no_sep)
  qed
qed

lemma js_split_pieces: "w \<in> set (js_split c s) \<Longrightarrow> c \<notin> set w"
  by (induction s arbitrary: w) (auto split: list.splits if_splits)

lemma js_join_Cons_hd [simp]: "js_join c ((x # w) # ws) = x # js_join c (w # ws)"
  by (cases ws) auto

lemma js_join_split [simp]: "js_join c (js_split c s) = s"
  by (induction s) (auto split: list.splits)

lemma js_split_join:
  "ws \<noteq> [] \<Longrightarrow> (\<forall>w \<in> set ws. c \<notin> set w) \<Longrightarrow> js_split c (js_join c ws) = ws"
proof (induction c ws rule: js_join.induct)
  case (1 c)
  then show ?case by simp
next
  case (2 c w)
  then show ?case by (simp add: js_split_no_sep)
next
  case (3 c w v ws)
  then have IH: "js_split c (js_join c (v # ws)) = v # ws" by simp
  from "3.prems" have "c \<notin> set w" by simp
  then show ?case using IH
    by (induction w) auto
qed

section \<open>Lists\<close>

lemma find_append_None [simp]: "find P xs = None \<Longrightarrow> find P (xs @ ys) = find P ys"
  by (induction xs) auto

section \<open>\<open>Number.prototype.toString\<close> on non-negative integers\<close>

definition digit_char :: "nat \<Rightarrow> char" where
  "digit_char d = char_of (48 + d)"

fun nat_str :: "nat \<Rightarrow> js_str" where
  "nat_str n = (if n < 10 then [digit_char n] else nat_str (n div 10) @ [digit_char (n mod 10)])"

declare nat_str.simps [simp del]

text \<open>The reading back of a decimal string, \<open>parseInt(s, 10)\<close> on digit strings.\<close>

definition str_nat :: "js_str \<Rightarrow> nat" where
  "str_nat s = foldl (\<lambda>acc ch. 10 * acc + (of_char ch - 48)) 0 s"

lemma char_of_eq_iff [js_simps]: "char_of n = c \<longleftrightarrow> n mod 256 = of_char c"
  by (metis char_of_char char_of_mod_256 of_char_of)

declare nat_str.simps [js_simps] digit_char_def [js_simps]

lemma digit_char_value [simp]: "d < 10 \<Longrightarrow> of_char (digit_char d) - 48 = d"
  by (simp add: digit_char_def)

lemma str_nat_snoc: "str_nat (s @ [ch]) = 10 * str_nat s + (of_char ch - 48)"
  by (simp add: str_nat_def)

lemma str_nat_nat_str [simp]: "str_nat (nat_str n) = n"
proof (induction n rule: nat_str.induct)
  case (1 n)
  show ?case
  proof (cases "n < 10")
    case True
    then show ?thesis by (simp add: nat_str.simps [of n] str_nat_def)
  next
    case False
    with "1.IH" show ?thesis
      by (simp add: nat_str.simps [of n] str_nat_snoc)
  qed
qed

lemma nat_str_inj [simp]: "nat_str m = nat_str n \<longleftrightarrow> m = n"
  by (metis str_nat_nat_str)

lemma nat_str_nonempty [simp]: "nat_str n \<noteq> []"
  by (subst nat_str.simps) simp

text \<open>
  Decimal numerals as \<open>toString\<close> writes them: non-empty, digits only, no leading zero.
\<close>

definition is_digit :: "char \<Rightarrow> bool" where
  "is_digit c \<longleftrightarrow> 48 \<le> (of_char c :: nat) \<and> (of_char c :: nat) \<le> 57"

definition is_decimal :: "js_str \<Rightarrow> bool" where
  "is_decimal s \<longleftrightarrow> s \<noteq> [] \<and> (\<forall>c \<in> set s. is_digit c) \<and> (hd s = CHR ''0'' \<longrightarrow> s = ''0'')"

lemma is_digit_digit_char [simp]: "d < 10 \<Longrightarrow> is_digit (digit_char d)"
  by (simp add: is_digit_def digit_char_def)

lemma nat_str_digits: "c \<in> set (nat_str n) \<Longrightarrow> is_digit c"
proof (induction n rule: nat_str.induct)
  case (1 n)
  then show ?case by (cases "n < 10") (auto simp: nat_str.simps [of n])
qed

lemma hd_nat_str: "n \<ge> 10 \<Longrightarrow> hd (nat_str n) = hd (nat_str (n div 10))"
  by (simp add: nat_str.simps [of n])

lemma nat_str_hd_zero: "hd (nat_str n) = CHR ''0'' \<Longrightarrow> n = 0"
proof (induction n rule: nat_str.induct)
  case (1 n)
  show ?case
  proof (cases "n < 10")
    case True
    then have "hd (nat_str n) = digit_char n" by (simp add: nat_str.simps [of n])
    with "1.prems" have "of_char (digit_char n) - 48 = (0::nat)" by simp
    with True show ?thesis by (simp only: digit_char_value)
  next
    case False
    have "hd (nat_str (n div 10)) = CHR ''0''"
      using "1.prems" hd_nat_str [of n] False by (simp only: not_less)
    then have "n div 10 = 0" by (rule "1.IH" [OF False])
    with False show ?thesis by simp
  qed
qed

lemma nat_str_decimal: "is_decimal (nat_str n)"
proof -
  have "hd (nat_str n) = CHR ''0'' \<Longrightarrow> nat_str n = ''0''"
    using nat_str_hd_zero [of n] by (simp add: nat_str.simps [of 0] digit_char_def)
  then show ?thesis by (auto simp: is_decimal_def nat_str_digits)
qed

lemma digit_char_of_digit: "is_digit c \<Longrightarrow> digit_char (of_char c - 48) = c"
  by (simp add: is_digit_def digit_char_def)

lemma digit_value_less: "is_digit c \<Longrightarrow> of_char c - 48 < (10::nat)"
  unfolding is_digit_def by arith

lemma is_decimal_snoc:
  assumes "is_decimal (xs @ [c])" "xs \<noteq> []"
  shows "is_decimal xs \<and> hd xs \<noteq> CHR ''0'' \<and> is_digit c"
  using assms by (cases xs) (auto simp: is_decimal_def)

lemma nat_str_str_nat: "is_decimal s \<Longrightarrow> nat_str (str_nat s) = s"
proof (induction s rule: rev_induct)
  case Nil
  then show ?case by (simp add: is_decimal_def)
next
  case (snoc c xs)
  show ?case
  proof (cases "xs = []")
    case True
    with snoc.prems have d: "is_digit c" by (simp add: is_decimal_def)
    have "str_nat [c] = of_char c - 48" by (simp add: str_nat_def)
    with True d show ?thesis
      by (simp add: nat_str.simps [of "of_char c - 48"] digit_value_less digit_char_of_digit)
  next
    case False
    with snoc.prems have xs: "is_decimal xs" "hd xs \<noteq> CHR ''0''" and d: "is_digit c"
      by (auto dest: is_decimal_snoc)
    have ih: "nat_str (str_nat xs) = xs" by (rule snoc.IH [OF xs(1)])
    have pos: "str_nat xs \<noteq> 0"
    proof
      assume "str_nat xs = 0"
      with ih have "xs = nat_str 0" by simp
      with xs(2) show False by (simp add: nat_str.simps [of 0] digit_char_def char_of_eq_iff)
    qed
    let ?d = "of_char c - 48 :: nat"
    have dl: "?d < 10" using d by (rule digit_value_less)
    have "str_nat (xs @ [c]) = 10 * str_nat xs + ?d" by (rule str_nat_snoc)
    moreover have "nat_str (10 * str_nat xs + ?d) = nat_str (str_nat xs) @ [digit_char ?d]"
      using pos dl by (subst nat_str.simps) simp
    ultimately show ?thesis using ih d by (simp add: digit_char_of_digit)
  qed
qed

end
