(* ===== verification/Browser.thy ===== *)
theory Browser
  imports Prelude
begin

text \<open>
  The parts of the browser platform that the client calls and whose effects its
  correctness depends on: \<open>localStorage\<close> (a persistent string-to-string map),
  \<open>File\<close> objects, the object-URL registry behind \<open>URL.createObjectURL\<close> and
  \<open>URL.revokeObjectURL\<close>, the \<open>String(v)\<close> conversion, and the clock with
  \<open>Date.prototype.toISOString\<close>.  None of this is code of the repository; it is the
  environment, modelled from the platform's documented behaviour so that the
  component theories can state what the code does to it.
\<close>

section \<open>Files chosen by the user\<close>

text \<open>
  A \<open>File\<close> as the code reads it: its \<open>name\<close>, its MIME \<open>type\<close> (possibly empty) and the
  identity of its contents (a blob number).
\<close>

record js_file =
  file_name :: js_str
  file_mime :: js_str
  file_blob :: nat

section \<open>\<open>String(v)\<close> and \<open>localStorage\<close>\<close>

text \<open>\<open>String(v)\<close> for a value that is a string or \<open>undefined\<close>.\<close>

fun js_String :: "js_opt_str \<Rightarrow> js_str" where
  "js_String None = ''undefined''"
| "js_String (Some s) = s"

type_synonym storage = "js_str \<rightharpoonup> js_str"

text \<open>
  \<open>setItem(k, v)\<close> stores \<open>String(v)\<close>; \<open>getItem\<close> is the map's lookup (\<open>null\<close> is
  \<open>None\<close>); \<open>removeItem\<close> and \<open>clear\<close> delete one key and all keys.
\<close>

definition set_item :: "js_str \<Rightarrow> js_opt_str \<Rightarrow> storage \<Rightarrow> storage" where
  "set_item k v st = st(k \<mapsto> js_String v)"

definition remove_item :: "js_str \<Rightarrow> storage \<Rightarrow> storage" where
  "remove_item k st = st(k := None)"

definition clear_storage :: "storage \<Rightarrow> storage" where
  "clear_storage st = Map.empty"

lemma set_item_get [simp]: "set_item k v st k = Some (js_String v)"
  by (simp add: set_item_def)

lemma set_item_other [simp]: "k' \<noteq> k \<Longrightarrow> set_item k v st k' = st k'"
  by (simp add: set_item_def)

lemma remove_item_get [simp]: "remove_item k st k = None"
  by (simp add: remove_item_def)

lemma clear_storage_get [simp]: "clear_storage st k = None"
  by (simp add: clear_storage_def)

section \<open>Object URLs\<close>

text \<open>
  \<open>URL.createObjectURL(blob)\<close> returns a fresh \<open>blob:\<close> URL that keeps the blob alive
  until \<open>URL.revokeObjectURL\<close> is called on it.  The registry records the URLs that
  are live and the blob each one holds, and a counter that makes every URL fresh.
\<close>

record url_registry =
  next_url :: nat
  live_urls :: "js_str \<rightharpoonup> nat"

definition url_of :: "nat \<Rightarrow> js_str" where
  "url_of n = ''blob:'' @ nat_str n"

definition create_object_url :: "js_file \<Rightarrow> url_registry \<Rightarrow> js_str \<times> url_registry" where
  "create_object_url f r =
     (url_of (next_url r),
      r\<lparr>next_url := Suc (next_url r),
        live_urls := (live_urls r)(url_of (next_url r) \<mapsto> file_blob f)\<rparr>)"

definition revoke_object_url :: "js_str \<Rightarrow> url_registry \<Rightarrow> url_registry" where
  "revoke_object_url u r = r\<lparr>live_urls := (live_urls r)(u := None)\<rparr>"

definition empty_registry :: url_registry where
  "empty_registry = \<lparr>next_url = 0, live_urls = Map.empty\<rparr>"

text \<open>Well-formedness: every live URL was issued before the counter.\<close>

definition registry_ok :: "url_registry \<Rightarrow> bool" where
  "registry_ok r \<longleftrightarrow> (\<forall>u \<in> dom (live_urls r). \<exists>n < next_url r. u = url_of n)"

lemma url_of_inj [simp]: "url_of m = url_of n \<longleftrightarrow> m = n"
  by (simp add: url_of_def)

lemma create_object_url_fresh:
  assumes "registry_ok r"
  shows "fst (create_object_url f r) \<notin> dom (live_urls r)"
  using assms by (force simp: registry_ok_def create_object_url_def)

lemma create_object_url_ok:
  "registry_ok r \<Longrightarrow> registry_ok (snd (create_object_url f r))"
  by (force simp: registry_ok_def create_object_url_def less_Suc_eq)

lemma revoke_object_url_ok:
  "registry_ok r \<Longrightarrow> registry_ok (revoke_object_url u r)"
  by (simp add: registry_ok_def revoke_object_url_def)

lemma create_object_url_live:
  "create_object_url f r = (u, r') \<Longrightarrow> live_urls r' u = Some (file_blob f)"
  by (auto simp: create_object_url_def)

lemma create_object_url_mono: "dom (live_urls r) \<subseteq> dom (live_urls (snd (create_object_url f r)))"
  by (auto simp: create_object_url_def)

lemma empty_registry_ok [simp]: "registry_ok empty_registry"
  by (simp add: registry_ok_def empty_registry_def)

section \<open>The clock and \<open>toISOString\<close>\<close>

text \<open>
  \<open>Date.now()\<close> is a natural number of milliseconds since the epoch.
  \<open>new Date().toISOString()\<close> renders it as \<open>YYYY-MM-DDTHH:mm:ss.sssZ\<close>; the date is
  computed by the days-to-civil conversion of the proleptic Gregorian calendar.
  Years up to 9999 are written with four digits; later years in the extended form, a
  sign and six digits (\<open>+010000-01-01T00:00:00.000Z\<close>).  The platform throws a
  \<open>RangeError\<close> only beyond 8.64e15 ms, which \<open>Date.now()\<close> never reaches.
\<close>

definition pad_digits :: "nat \<Rightarrow> nat \<Rightarrow> js_str" where
  "pad_digits w n = map (\<lambda>i. digit_char (n div 10 ^ (w - 1 - i) mod 10)) [0..<w]"

definition civil_of_days :: "nat \<Rightarrow> nat \<times> nat \<times> nat" where
  "civil_of_days days =
     (let z = days + 719468; era = z div 146097; doe = z mod 146097;
          yoe = (doe - doe div 1460 + doe div 36524 - doe div 146096) div 365;
          doy = doe - (365 * yoe + yoe div 4 - yoe div 100);
          mp = (5 * doy + 2) div 153;
          d = doy - (153 * mp + 2) div 5 + 1;
          m = (if mp < 10 then mp + 3 else mp - 9);
          y = yoe + era * 400 + (if m \<le> 2 then 1 else 0)
      in (y, m, d))"

definition to_iso_string :: "nat \<Rightarrow> js_str" where
  "to_iso_string ms =
     (let (y, mo, d) = civil_of_days (ms div 86400000); t = ms mod 86400000
      in (if y \<le> 9999 then pad_digits 4 y else ''+'' @ pad_digits 6 y) @ ''-'' @ pad_digits 2 mo @ ''-'' @ pad_digits 2 d @ ''T'' @
         pad_digits 2 (t div 3600000) @ '':'' @ pad_digits 2 (t div 60000 mod 60) @ '':'' @
         pad_digits 2 (t div 1000 mod 60) @ ''.'' @ pad_digits 3 (t mod 1000) @ ''Z'')"

lemma to_iso_string_length:
  "length (to_iso_string ms) = (if fst (civil_of_days (ms div 86400000)) \<le> 9999 then 24 else 27)"
  by (simp add: to_iso_string_def pad_digits_def Let_def split: prod.split)

lemma to_iso_string_nonempty [simp]: "to_iso_string ms \<noteq> []"
  using to_iso_string_length [of ms] by (auto split: if_splits)

end
