(* ===== verification/Api.thy ===== *)
theory Api
  imports Browser
begin

text \<open>
  The API client of src/src/lib/api.ts: the five operations the screens call, the
  HTTP request each one sends (method, URL, headers, body), the shapes of the parsed
  responses, and the outcome of a call as the caller sees it.  The screens do not
  build requests themselves: they issue an \<open>api_call\<close>, and \<open>http_of_call\<close> is the
  request that the corresponding method of \<open>api\<close> sends for it.
\<close>

section \<open>Base URL\<close>

definition default_api_base :: js_str where
  "default_api_base = ''http://localhost:5000''"

text \<open>\<open>import.meta.env.VITE_API_URL || 'http://localhost:5000'\<close>.\<close>

definition api_base :: "js_opt_str \<Rightarrow> js_str" where
  "api_base vite_api_url = js_or_opt vite_api_url default_api_base"

section \<open>Calls issued by the screens\<close>

text \<open>
  The user id is a \<open>string\<close> in the TypeScript signatures, but at run time it is
  whatever the server's \<open>user_id\<close> field held, possibly \<open>undefined\<close>; it is therefore a
  \<open>js_opt_str\<close> here.
\<close>

datatype api_call =
    Call_register js_str js_str js_str
  | Call_login js_str js_str
  | Call_guest
  | Call_chat js_opt_str js_str bool
  | Call_upload js_opt_str js_file bool

section \<open>HTTP requests\<close>

datatype json = JStr js_str | JBool bool

datatype form_value = Form_text js_str | Form_blob js_file

datatype http_body = No_body | Json_body "(js_str \<times> json) list" | Form_body "(js_str \<times> form_value) list"

record http_request =
  req_method :: js_str
  req_url :: js_str
  req_headers :: "(js_str \<times> js_str) list"
  req_body :: http_body

text \<open>\<open>JSON.stringify\<close> of an object literal omits the keys whose value is \<open>undefined\<close>.\<close>

definition json_object :: "(js_str \<times> json option) list \<Rightarrow> (js_str \<times> json) list" where
  "json_object kvs = List.map_filter (\<lambda>(k, v). map_option (Pair k) v) kvs"

text \<open>\<open>String(b)\<close> for a boolean, as \<open>FormData.append('is_guest', String(isGuest))\<close> sends it.\<close>

definition bool_str :: "bool \<Rightarrow> js_str" where
  "bool_str b = (if b then ''true'' else ''false'')"

definition json_headers :: "(js_str \<times> js_str) list" where
  "json_headers = [(''Content-Type'', ''application/json'')]"

text \<open>
  One equation per method of \<open>api\<close>.  \<open>FormData.append\<close> converts a non-blob value with
  \<open>String\<close>, so an undefined user id is sent as the text \<open>undefined\<close>; \<open>JSON.stringify\<close>
  drops it instead.
\<close>

fun http_of_call :: "js_str \<Rightarrow> api_call \<Rightarrow> http_request" where
  "http_of_call base (Call_register name email password) =
     \<lparr>req_method = ''POST'', req_url = base @ ''/auth/register'', req_headers = json_headers,
      req_body = Json_body (json_object [(''name'', Some (JStr name)), (''email'', Some (JStr email)),
                                         (''password'', Some (JStr password))])\<rparr>"
| "http_of_call base (Call_login email password) =
     \<lparr>req_method = ''POST'', req_url = base @ ''/auth/login'', req_headers = json_headers,
      req_body = Json_body (json_object [(''email'', Some (JStr email)), (''password'', Some (JStr password))])\<rparr>"
| "http_of_call base Call_guest =
     \<lparr>req_method = ''POST'', req_url = base @ ''/auth/guest'', req_headers = [], req_body = No_body\<rparr>"
| "http_of_call base (Call_chat uid query guest) =
     \<lparr>req_method = ''POST'', req_url = base @ ''/api/chat'', req_headers = json_headers,
      req_body = Json_body (json_object [(''user_id'', map_option JStr uid), (''query'', Some (JStr query)),
                                         (''is_guest'', Some (JBool guest))])\<rparr>"
| "http_of_call base (Call_upload uid f guest) =
     \<lparr>req_method = ''POST'', req_url = base @ ''/api/upload'', req_headers = [],
      req_body = Form_body [(''user_id'', Form_text (js_String uid)), (''file'', Form_blob f),
                            (''is_guest'', Form_text (bool_str guest))]\<rparr>"

section \<open>Responses\<close>

text \<open>
  The parsed JSON bodies, as the code reads them: every field may be missing (no schema
  validation is done), so every field is optional.
\<close>

record auth_response =
  ar_user_id :: js_opt_str
  ar_email :: js_opt_str
  ar_error :: js_opt_str

record chat_response =
  cr_user_id :: js_opt_str
  cr_response :: js_opt_str
  cr_timestamp :: js_opt_str
  cr_error :: js_opt_str

record upload_response =
  up_processed :: bool
  up_error :: js_opt_str

text \<open>
  The outcome of \<open>await api.f(...)\<close>: the promise rejects when \<open>fetch\<close> fails or the body
  is not JSON (\<open>Net_failure\<close>); it resolves to \<open>null\<close> when the body is the JSON literal
  \<open>null\<close>, on which any field access throws a \<open>TypeError\<close>; otherwise it resolves to the
  object.  A body that is a JSON number, string or boolean reads as an object with
  every field missing.
\<close>

datatype 'a outcome = Net_failure | Resolved_null | Resolved 'a

section \<open>Properties of the request layer\<close>

definition endpoint_path :: "api_call \<Rightarrow> js_str" where
  "endpoint_path c = (case c of Call_register _ _ _ \<Rightarrow> ''/auth/register'' | Call_login _ _ \<Rightarrow> ''/auth/login''
     | Call_guest \<Rightarrow> ''/auth/guest'' | Call_chat _ _ _ \<Rightarrow> ''/api/chat'' | Call_upload _ _ _ \<Rightarrow> ''/api/upload'')"

lemma http_of_call_url: "req_url (http_of_call base c) = base @ endpoint_path c"
  by (cases c) (simp_all add: endpoint_path_def)

lemma http_of_call_post: "req_method (http_of_call base c) = ''POST''"
  by (cases c) simp_all

lemma json_object_Some [simp]: "json_object ((k, Some v) # kvs) = (k, v) # json_object kvs"
  by (simp add: json_object_def List.map_filter_simps)

lemma json_object_None [simp]: "json_object ((k, None) # kvs) = json_object kvs"
  by (simp add: json_object_def List.map_filter_simps)

lemma json_object_Nil [simp]: "json_object [] = []"
  by (simp add: json_object_def List.map_filter_simps)

text \<open>
  C29: a call made with an undefined user id (the id a guest login or a registration
  answered without \<open>user_id\<close> reports) reaches the two endpoints differently: the chat
  request omits the \<open>user_id\<close> key (\<open>JSON.stringify\<close> drops it), while the upload sends
  the text \<open>undefined\<close> as the user id (\<open>FormData.append\<close> converts it with \<open>String\<close>).
\<close>

theorem undefined_user_id_requests:
  "req_body (http_of_call base (Call_chat None q g)) = Json_body [(''query'', JStr q), (''is_guest'', JBool g)]
   \<and> req_body (http_of_call base (Call_upload None f g))
       = Form_body [(''user_id'', Form_text ''undefined''), (''file'', Form_blob f), (''is_guest'', Form_text (bool_str g))]"
  by simp

text \<open>
  Every request follows the endpoint table: it is a POST to the base URL followed by
  the operation's path, and it carries the JSON content type exactly when its body is
  JSON, and no header otherwise (the guest login has no body, the upload a multipart one).
\<close>

lemma requests_follow_endpoint_table:
  "req_method (http_of_call base c) = ''POST'' \<and> req_url (http_of_call base c) = base @ endpoint_path c
   \<and> (req_headers (http_of_call base c) = json_headers \<longleftrightarrow> (\<exists>kvs. req_body (http_of_call base c) = Json_body kvs))
   \<and> (req_headers (http_of_call base c) \<noteq> json_headers \<longrightarrow> req_headers (http_of_call base c) = [])"
  by (cases c) (simp_all add: endpoint_path_def json_headers_def)

end
