(* ===== verification/AuthScreen.thy ===== *)
theory AuthScreen
  imports Api
begin

text \<open>
  The authentication screen of src/src/components/AuthScreen.tsx.  Its React state
  (\<open>name\<close>, \<open>email\<close>, \<open>password\<close>, \<open>loading\<close>, \<open>error\<close>) is the record
  \<open>auth_state\<close>; \<open>pending\<close> records which of the three asynchronous handlers is
  suspended at its \<open>await\<close>.  A step returns the new state, the new \<open>localStorage\<close>, the
  API call it issued and the \<open>onAuth(userId, isGuest)\<close> call it made, if any; the root
  container (App.thy) reacts to the latter.
\<close>

section \<open>State\<close>

datatype auth_pending = Pending_register | Pending_login | Pending_guest

record auth_state =
  auth_name :: js_str
  auth_email :: js_str
  auth_password :: js_str
  auth_loading :: bool
  auth_error :: js_str
  pending :: "auth_pending option"

definition initial_auth :: auth_state where
  "initial_auth = \<lparr>auth_name = [], auth_email = [], auth_password = [], auth_loading = False,
     auth_error = [], pending = None\<rparr>"

definition connection_failed_text :: js_str where
  "connection_failed_text = ''Connection failed. Is the server running?''"

definition user_id_key :: js_str where
  "user_id_key = ''user_id''"

text \<open>The value passed to \<open>onAuth\<close>: the user id (possibly \<open>undefined\<close>) and the guest flag.\<close>

type_synonym auth_callback = "js_opt_str \<times> bool"

type_synonym auth_result = "auth_state \<times> storage \<times> api_call option \<times> auth_callback option"

section \<open>Handlers\<close>

text \<open>The mount effect: a truthy persisted \<open>user_id\<close> is reported as a non-guest session.\<close>

definition auth_mount :: "storage \<Rightarrow> auth_callback option" where
  "auth_mount store =
     (case store user_id_key of Some access \<Rightarrow> if truthy access then Some (Some access, False) else None
      | None \<Rightarrow> None)"

text \<open>
  The synchronous part of each handler, up to its \<open>await\<close>: \<open>setLoading(true)\<close>,
  \<open>setError('')\<close> and the call.
\<close>

definition start_call :: "auth_pending \<Rightarrow> api_call \<Rightarrow> auth_state \<Rightarrow> storage \<Rightarrow> auth_result" where
  "start_call p c st store = (st\<lparr>auth_loading := True, auth_error := [], pending := Some p\<rparr>, store, Some c, None)"

definition handle_register :: "auth_state \<Rightarrow> storage \<Rightarrow> auth_result" where
  "handle_register st store =
     start_call Pending_register (Call_register (auth_name st) (auth_email st) (auth_password st)) st store"

definition handle_login :: "auth_state \<Rightarrow> storage \<Rightarrow> auth_result" where
  "handle_login st store = start_call Pending_login (Call_login (auth_email st) (auth_password st)) st store"

definition handle_guest :: "auth_state \<Rightarrow> storage \<Rightarrow> auth_result" where
  "handle_guest st store = start_call Pending_guest Call_guest st store"

text \<open>\<open>setLoading(false)\<close> after the \<open>try\<close>/\<open>catch\<close>.\<close>

definition end_call :: "auth_state \<Rightarrow> auth_state" where
  "end_call st = st\<lparr>auth_loading := False, pending := None\<rparr>"

text \<open>
  The rest of \<open>handleRegister\<close> and \<open>handleLogin\<close> once the call settles: a server error
  is shown verbatim; otherwise the id is persisted and reported.  A rejected call and a
  \<open>null\<close> body (on which \<open>res.error\<close> throws) both land in the \<open>catch\<close>.
\<close>

definition credentials_settled :: "auth_response outcome \<Rightarrow> auth_state \<Rightarrow> storage \<Rightarrow> auth_result" where
  "credentials_settled res st store =
     (case res of
        Resolved r \<Rightarrow>
          if opt_truthy (ar_error r) then (end_call (st\<lparr>auth_error := the (ar_error r)\<rparr>), store, None, None)
          else (end_call st, set_item user_id_key (ar_user_id r) store, None, Some (ar_user_id r, False))
      | _ \<Rightarrow> (end_call (st\<lparr>auth_error := connection_failed_text\<rparr>), store, None, None))"

text \<open>The rest of \<open>handleGuest\<close>: any resolved object is reported as a guest session.\<close>

definition guest_settled :: "auth_response outcome \<Rightarrow> auth_state \<Rightarrow> storage \<Rightarrow> auth_result" where
  "guest_settled res st store =
     (case res of
        Resolved r \<Rightarrow> (end_call st, store, None, Some (ar_user_id r, True))
      | _ \<Rightarrow> (end_call (st\<lparr>auth_error := connection_failed_text\<rparr>), store, None, None))"

definition auth_settled :: "auth_response outcome \<Rightarrow> auth_state \<Rightarrow> storage \<Rightarrow> auth_result" where
  "auth_settled res st store =
     (case pending st of
        None \<Rightarrow> (st, store, None, None)
      | Some Pending_guest \<Rightarrow> guest_settled res st store
      | Some _ \<Rightarrow> credentials_settled res st store)"

text \<open>The \<open>disabled\<close> attributes of the Sign In / Create Account buttons and of the guest button.\<close>

definition submit_disabled :: "auth_state \<Rightarrow> bool" where
  "submit_disabled st \<longleftrightarrow> auth_loading st \<or> \<not> truthy (auth_email st) \<or> \<not> truthy (auth_password st)"

definition guest_disabled :: "auth_state \<Rightarrow> bool" where
  "guest_disabled st \<longleftrightarrow> auth_loading st"

section \<open>One event\<close>

text \<open>
  The inputs are never disabled; a click on a disabled button does not reach its
  handler.
\<close>

datatype auth_event =
    Set_name js_str
  | Set_email js_str
  | Set_password js_str
  | Click_login
  | Click_register
  | Click_guest
  | Auth_call_settled "auth_response outcome"

primrec auth_step :: "auth_event \<Rightarrow> auth_state \<Rightarrow> storage \<Rightarrow> auth_result" where
  "auth_step (Set_name s) st store = (st\<lparr>auth_name := s\<rparr>, store, None, None)"
| "auth_step (Set_email s) st store = (st\<lparr>auth_email := s\<rparr>, store, None, None)"
| "auth_step (Set_password s) st store = (st\<lparr>auth_password := s\<rparr>, store, None, None)"
| "auth_step Click_login st store =
     (if submit_disabled st then (st, store, None, None) else handle_login st store)"
| "auth_step Click_register st store =
     (if submit_disabled st then (st, store, None, None) else handle_register st store)"
| "auth_step Click_guest st store =
     (if guest_disabled st then (st, store, None, None) else handle_guest st store)"
| "auth_step (Auth_call_settled res) st store = auth_settled res st store"

section \<open>Reachable states and the invariant\<close>

inductive auth_reachable :: "auth_state \<Rightarrow> storage \<Rightarrow> bool" where
  init: "auth_reachable initial_auth store"
| step: "auth_reachable st store \<Longrightarrow> auth_step e st store = (st', store', c, cb) \<Longrightarrow>
         auth_reachable st' store'"

text \<open>The screen is loading exactly while one handler is suspended.\<close>

definition auth_inv :: "auth_state \<Rightarrow> bool" where
  "auth_inv st \<longleftrightarrow> (auth_loading st \<longleftrightarrow> pending st \<noteq> None)"


text \<open>The events that are the settling of the screen's call rather than a user action.\<close>

fun auth_settles :: "auth_event \<Rightarrow> bool" where
  "auth_settles (Auth_call_settled _) = True"
| "auth_settles _ = False"

section \<open>Lemmas\<close>

lemmas auth_simps = handle_login_def handle_register_def handle_guest_def start_call_def
  auth_settled_def credentials_settled_def guest_settled_def end_call_def

lemma initial_auth_inv [simp]: "auth_inv initial_auth"
  by (simp add: auth_inv_def initial_auth_def)

lemma auth_step_inv:
  assumes "auth_inv st"
  shows "auth_inv (fst (auth_step e st store))"
  using assms
  by (cases e) (auto simp: auth_inv_def auth_simps split: option.splits auth_pending.splits outcome.splits)

text \<open>
  C9: submitting the login or the registration form with an empty email or an empty
  password does nothing: the button is disabled, so no call is made and no state changes.
\<close>

theorem empty_credentials_no_call:
  assumes "\<not> truthy (auth_email st) \<or> \<not> truthy (auth_password st)" "e = Click_login \<or> e = Click_register"
  shows "auth_step e st store = (st, store, None, None)"
  using assms by (auto simp: submit_disabled_def)

theorem empty_credentials_no_call_witness:
  "auth_step Click_login (initial_auth\<lparr>auth_email := ''a@b.c''\<rparr>) Map.empty
     = (initial_auth\<lparr>auth_email := ''a@b.c''\<rparr>, Map.empty, None, None)"
  using empty_credentials_no_call [of "initial_auth\<lparr>auth_email := ''a@b.c''\<rparr>" Click_login Map.empty]
  by (simp add: initial_auth_def)

text \<open>
  C10: while a submission is in flight (\<open>loading\<close>), no user action issues a call, reports
  a session, touches the storage or changes which handler is suspended: duplicate
  concurrent submissions are impossible.
\<close>

theorem auth_busy_no_call:
  assumes "auth_loading st" "\<not> auth_settles e"
  shows "snd (snd (auth_step e st store)) = (None, None) \<and> pending (fst (auth_step e st store)) = pending st
       \<and> fst (snd (auth_step e st store)) = store"
  using assms by (cases e) (simp_all add: submit_disabled_def guest_disabled_def)

theorem auth_busy_no_call_witness:
  "snd (snd (auth_step Click_guest (initial_auth\<lparr>auth_loading := True, pending := Some Pending_login\<rparr>) Map.empty))
     = (None, None)"
  using auth_busy_no_call [of "initial_auth\<lparr>auth_loading := True, pending := Some Pending_login\<rparr>" Click_guest Map.empty]
  by simp

text \<open>
  C11: when a login or registration call resolves without a server error, the screen
  persists \<open>String(user_id)\<close> under the key \<open>user_id\<close> and reports the session
  \<open>(user_id, isGuest = false)\<close>; loading ends.
\<close>

theorem credentials_success:
  assumes "pending st = Some Pending_login \<or> pending st = Some Pending_register" "\<not> opt_truthy (ar_error r)"
  shows "auth_step (Auth_call_settled (Resolved r)) st store =
           (st\<lparr>auth_loading := False, pending := None\<rparr>, store(user_id_key \<mapsto> js_String (ar_user_id r)),
            None, Some (ar_user_id r, False))"
  using assms by (auto simp: auth_simps set_item_def)

theorem credentials_success_witness:
  "auth_step (Auth_call_settled (Resolved \<lparr>ar_user_id = Some ''u42'', ar_email = None, ar_error = None\<rparr>))
      (initial_auth\<lparr>auth_loading := True, pending := Some Pending_login\<rparr>) Map.empty
   = (initial_auth, [user_id_key \<mapsto> ''u42''], None, Some (Some ''u42'', False))"
  using credentials_success [of "initial_auth\<lparr>auth_loading := True, pending := Some Pending_login\<rparr>"
      "\<lparr>ar_user_id = Some ''u42'', ar_email = None, ar_error = None\<rparr>" Map.empty]
  by (simp add: initial_auth_def)

text \<open>
  C12: a server-reported error of a login or registration is shown verbatim, the form
  fields keep their values, nothing is persisted and no session is reported.
\<close>

theorem credentials_server_error:
  assumes "pending st = Some Pending_login \<or> pending st = Some Pending_register" "ar_error r = Some msg" "msg \<noteq> []"
  shows "auth_step (Auth_call_settled (Resolved r)) st store =
           (st\<lparr>auth_loading := False, auth_error := msg, pending := None\<rparr>, store, None, None)"
  using assms by (auto simp: auth_simps truthy_def)

theorem credentials_server_error_witness:
  "auth_step (Auth_call_settled (Resolved \<lparr>ar_user_id = None, ar_email = None, ar_error = Some ''taken''\<rparr>))
     (initial_auth\<lparr>auth_email := ''a@b.c'', auth_loading := True, pending := Some Pending_register\<rparr>) Map.empty
   = (initial_auth\<lparr>auth_email := ''a@b.c'', auth_error := ''taken''\<rparr>, Map.empty, None, None)"
  using credentials_server_error [of "initial_auth\<lparr>auth_email := ''a@b.c'', auth_loading := True, pending := Some Pending_register\<rparr>"
      "\<lparr>ar_user_id = None, ar_email = None, ar_error = Some ''taken''\<rparr>" "''taken''" Map.empty]
  by (simp add: initial_auth_def)

text \<open>
  C13: a call that fails in transport (or resolves to a \<open>null\<close> body) shows the fixed
  connection-failure text, reports no session and leaves the storage alone, whichever of
  the three handlers made it.
\<close>

theorem credentials_transport_failure:
  assumes "pending st \<noteq> None" "res = Net_failure \<or> res = Resolved_null"
  shows "auth_step (Auth_call_settled res) st store =
           (st\<lparr>auth_loading := False, auth_error := connection_failed_text, pending := None\<rparr>, store, None, None)"
  using assms by (auto simp: auth_simps split: auth_pending.splits)

theorem credentials_transport_failure_witness:
  "auth_step (Auth_call_settled Net_failure) (initial_auth\<lparr>auth_loading := True, pending := Some Pending_guest\<rparr>) Map.empty
   = (initial_auth\<lparr>auth_error := connection_failed_text\<rparr>, Map.empty, None, None)"
  using credentials_transport_failure [of "initial_auth\<lparr>auth_loading := True, pending := Some Pending_guest\<rparr>" Net_failure Map.empty]
  by (simp add: initial_auth_def)

text \<open>
  C14: a resolved guest-login call always reports a guest session
  \<open>(user_id, isGuest = true)\<close> and never persists anything, even when the server's
  response carries an \<open>error\<close> (and no \<open>user_id\<close>): the handler does not look at it.
\<close>

theorem guest_ignores_server_error:
  assumes "pending st = Some Pending_guest"
  shows "auth_step (Auth_call_settled (Resolved r)) st store =
           (st\<lparr>auth_loading := False, pending := None\<rparr>, store, None, Some (ar_user_id r, True))"
  using assms by (simp add: auth_simps)

theorem guest_ignores_server_error_witness:
  "auth_step (Auth_call_settled (Resolved \<lparr>ar_user_id = None, ar_email = None, ar_error = Some ''guest disabled''\<rparr>))
     (initial_auth\<lparr>auth_loading := True, pending := Some Pending_guest\<rparr>) Map.empty
   = (initial_auth, Map.empty, None, Some (None, True))"
  using guest_ignores_server_error [of "initial_auth\<lparr>auth_loading := True, pending := Some Pending_guest\<rparr>"
      "\<lparr>ar_user_id = None, ar_email = None, ar_error = Some ''guest disabled''\<rparr>" Map.empty]
  by (simp add: initial_auth_def)

end
