(* ===== verification/ChatScreen.thy ===== *)
theory ChatScreen
  imports Api "HOL-Library.Sublist"
begin

text \<open>
  The chat screen of src/src/components/ChatScreen.tsx.  Its React state
  (\<open>messages\<close>, \<open>input\<close>, \<open>file\<close>, \<open>loading\<close>) is the record \<open>chat_state\<close>; the field
  \<open>phase\<close> is the suspended rest of the asynchronous \<open>handleSend\<close>: idle, waiting for
  the upload call (holding the \<open>currentInput\<close> and \<open>currentFile\<close> it captured), or
  waiting for the chat call.  Each event handler is one definition; \<open>chat_step\<close> is the
  screen's reaction to one event, including the \<open>disabled\<close> attributes of the JSX that
  decide whether an event reaches a handler at all.  A step returns the new state, the
  object-URL registry, and the API call it issued, if any.
\<close>

section \<open>Messages\<close>

datatype media_type = Image | Video | Audio | File_media

record media =
  media_kind :: media_type
  media_url :: js_str
  media_name :: js_str

record message =
  msg_id :: js_str
  content :: js_str
  is_user :: bool
  timestamp :: js_str
  msg_media :: "media option"

definition greeting_text :: js_str where
  "greeting_text = ''Hello! I'' @ [CHR 0x27] @ ''m your Mental Health Assistant. I'' @ [CHR 0x27] @
     ''m here to listen and support you. How are you feeling today?''"

definition file_ack_text :: js_str where
  "file_ack_text = ''Thank you for sharing that file. I'' @ [CHR 0x27] @
     ''ve processed it and added it to your context.''"

definition connection_error_text :: js_str where
  "connection_error_text = ''Sorry, I couldn'' @ [CHR 0x27] @ ''t connect to the server. Please try again.''"

definition chat_default_text :: js_str where
  "chat_default_text = ''I received your message.''"

text \<open>An assistant message created at clock value \<open>now\<close>: id \<open>(Date.now() + 1).toString()\<close>.\<close>

definition bot_message :: "nat \<Rightarrow> js_str \<Rightarrow> js_str \<Rightarrow> message" where
  "bot_message now text ts = \<lparr>msg_id = nat_str (now + 1), content = text, is_user = False,
     timestamp = ts, msg_media = None\<rparr>"

text \<open>The reply built from a resolved chat response.\<close>

definition chat_reply :: "nat \<Rightarrow> chat_response \<Rightarrow> message" where
  "chat_reply now r = bot_message now
     (js_or_opt (cr_response r) (js_or_opt (cr_error r) chat_default_text))
     (js_or_opt (cr_timestamp r) (to_iso_string now))"

section \<open>State\<close>

datatype send_phase = Idle | Awaiting_upload js_str js_file | Awaiting_chat js_str

record chat_state =
  messages :: "message list"
  input :: js_str
  chat_file :: "js_file option"
  loading :: bool
  phase :: send_phase

definition initial_chat :: "nat \<Rightarrow> chat_state" where
  "initial_chat now = \<lparr>messages = [\<lparr>msg_id = ''1'', content = greeting_text, is_user = False,
       timestamp = to_iso_string now, msg_media = None\<rparr>],
     input = [], chat_file = None, loading = False, phase = Idle\<rparr>"

section \<open>Handlers\<close>

text \<open>\<open>getMediaType\<close>: the part of the MIME type before the first slash.\<close>

definition get_media_type :: "js_file \<Rightarrow> media_type" where
  "get_media_type f =
     (let t = hd (js_split (CHR ''/'') (file_mime f))
      in if t = ''image'' then Image else if t = ''video'' then Video
         else if t = ''audio'' then Audio else File_media)"

definition append_msg :: "message \<Rightarrow> chat_state \<Rightarrow> chat_state" where
  "append_msg m st = st\<lparr>messages := messages st @ [m]\<rparr>"

text \<open>\<open>setLoading(false)\<close> at the end of \<open>handleSend\<close>: the send is over.\<close>

definition finish_send :: "chat_state \<Rightarrow> chat_state" where
  "finish_send st = st\<lparr>loading := False, phase := Idle\<rparr>"

text \<open>
  The body of the \<open>try\<close> after the optional upload: the chat call when the captured
  input has non-blank text, else the canned acknowledgement when a file was sent.
\<close>

definition send_continue ::
  "js_opt_str \<Rightarrow> bool \<Rightarrow> nat \<Rightarrow> js_str \<Rightarrow> js_file option \<Rightarrow> chat_state \<Rightarrow> chat_state \<times> api_call option" where
  "send_continue uid guest now cur_input cur_file st =
     (if js_trim cur_input \<noteq> [] then (st\<lparr>phase := Awaiting_chat cur_input\<rparr>, Some (Call_chat uid cur_input guest))
      else if cur_file \<noteq> None
      then (finish_send (append_msg (bot_message now file_ack_text (to_iso_string now)) st), None)
      else (finish_send st, None))"

text \<open>The user message that \<open>handleSend\<close> appends before any call.\<close>

definition user_message :: "nat \<Rightarrow> js_str \<Rightarrow> media option \<Rightarrow> js_file option \<Rightarrow> message" where
  "user_message now txt med f = \<lparr>msg_id = nat_str now,
     content = js_or txt (case f of Some f \<Rightarrow> ''Uploaded: '' @ file_name f | None \<Rightarrow> []),
     is_user = True, timestamp = to_iso_string now, msg_media = med\<rparr>"

definition handle_send ::
  "js_opt_str \<Rightarrow> bool \<Rightarrow> nat \<Rightarrow> chat_state \<Rightarrow> url_registry \<Rightarrow> chat_state \<times> url_registry \<times> api_call option" where
  "handle_send uid guest now st reg =
     (if js_trim (input st) = [] \<and> chat_file st = None then (st, reg, None)
      else
        let (med, reg') = (case chat_file st of None \<Rightarrow> (None, reg)
                             | Some f \<Rightarrow> let (u, r) = create_object_url f reg
                                        in (Some \<lparr>media_kind = get_media_type f, media_url = u,
                                                  media_name = file_name f\<rparr>, r));
            st1 = (append_msg (user_message now (input st) med (chat_file st)) st)
                    \<lparr>input := [], chat_file := None, loading := True\<rparr>
        in case chat_file st of
             Some f \<Rightarrow> (st1\<lparr>phase := Awaiting_upload (input st) f\<rparr>, reg', Some (Call_upload uid f guest))
           | None \<Rightarrow> let (st2, c) = send_continue uid guest now (input st) None st1 in (st2, reg', c))"

text \<open>Resumption of \<open>handleSend\<close> when the upload call settles.\<close>

definition upload_done ::
  "js_opt_str \<Rightarrow> bool \<Rightarrow> nat \<Rightarrow> upload_response outcome \<Rightarrow> chat_state \<Rightarrow> chat_state \<times> api_call option" where
  "upload_done uid guest now res st =
     (case phase st of
        Awaiting_upload cur_input f \<Rightarrow>
          (case res of
             Net_failure \<Rightarrow> (finish_send (append_msg (bot_message now connection_error_text (to_iso_string now)) st), None)
           | _ \<Rightarrow> send_continue uid guest now cur_input (Some f) st)
      | _ \<Rightarrow> (st, None))"

text \<open>Resumption of \<open>handleSend\<close> when the chat call settles.\<close>

definition chat_done :: "nat \<Rightarrow> chat_response outcome \<Rightarrow> chat_state \<Rightarrow> chat_state" where
  "chat_done now res st =
     (case phase st of
        Awaiting_chat _ \<Rightarrow>
          (case res of
             Resolved r \<Rightarrow> finish_send (append_msg (chat_reply now r) st)
           | _ \<Rightarrow> finish_send (append_msg (bot_message now connection_error_text (to_iso_string now)) st))
      | _ \<Rightarrow> st)"

text \<open>\<open>handleFileChange\<close>: \<open>e.target.files?.[0]\<close>, stored only when present.\<close>

definition handle_file_change :: "js_file list option \<Rightarrow> chat_state \<Rightarrow> chat_state" where
  "handle_file_change files st =
     (case files of Some (f # _) \<Rightarrow> st\<lparr>chat_file := Some f\<rparr> | _ \<Rightarrow> st)"

text \<open>\<open>handleKeyPress\<close>: Enter without Shift sends.\<close>

definition handle_key_press ::
  "js_opt_str \<Rightarrow> bool \<Rightarrow> nat \<Rightarrow> js_str \<Rightarrow> bool \<Rightarrow> chat_state \<Rightarrow> url_registry \<Rightarrow> chat_state \<times> url_registry \<times> api_call option" where
  "handle_key_press uid guest now k shift st reg =
     (if k = ''Enter'' \<and> \<not> shift then handle_send uid guest now st reg else (st, reg, None))"

text \<open>The \<open>disabled\<close> attribute of the send button.\<close>

definition send_disabled :: "chat_state \<Rightarrow> bool" where
  "send_disabled st \<longleftrightarrow> loading st \<or> (js_trim (input st) = [] \<and> chat_file st = None)"

section \<open>One event\<close>

text \<open>
  The events the screen reacts to: typing (the input's \<open>onChange\<close>), a file chosen
  through the paperclip, the preview's remove button, the send button, a key press in the
  input, and the settling of the upload or chat call.  The text input and the paperclip
  are \<open>disabled\<close> while \<open>loading\<close>, so they deliver no event then; the remove button
  is never disabled.
\<close>

datatype chat_event =
    Type_input js_str
  | Choose_files "js_file list option"
  | Remove_file
  | Click_send
  | Key_down js_str bool
  | Upload_settled "upload_response outcome"
  | Chat_settled "chat_response outcome"

primrec chat_step ::
  "js_opt_str \<Rightarrow> bool \<Rightarrow> nat \<Rightarrow> chat_event \<Rightarrow> chat_state \<Rightarrow> url_registry \<Rightarrow> chat_state \<times> url_registry \<times> api_call option" where
  "chat_step uid guest now (Type_input s) st reg =
     (if loading st then (st, reg, None) else (st\<lparr>input := s\<rparr>, reg, None))"
| "chat_step uid guest now (Choose_files fs) st reg =
     (if loading st then (st, reg, None) else (handle_file_change fs st, reg, None))"
| "chat_step uid guest now Remove_file st reg = (st\<lparr>chat_file := None\<rparr>, reg, None)"
| "chat_step uid guest now Click_send st reg =
     (if send_disabled st then (st, reg, None) else handle_send uid guest now st reg)"
| "chat_step uid guest now (Key_down k shift) st reg =
     (if loading st then (st, reg, None) else handle_key_press uid guest now k shift st reg)"
| "chat_step uid guest now (Upload_settled res) st reg =
     (let (st', c) = upload_done uid guest now res st in (st', reg, c))"
| "chat_step uid guest now (Chat_settled res) st reg = (chat_done now res st, reg, None)"


section \<open>Runs, reachable states and the invariant\<close>

text \<open>
  A run feeds the screen a list of events, each with the clock value at which it
  happens, and collects the API calls it issued, in order.
\<close>

fun chat_run ::
  "js_opt_str \<Rightarrow> bool \<Rightarrow> (nat \<times> chat_event) list \<Rightarrow> chat_state \<Rightarrow> url_registry \<Rightarrow> chat_state \<times> url_registry \<times> api_call list" where
  "chat_run uid g [] st reg = (st, reg, [])"
| "chat_run uid g ((t, e) # es) st reg =
     (case chat_step uid g t e st reg of (st', reg', c) \<Rightarrow>
        (case chat_run uid g es st' reg' of (st'', reg'', cs) \<Rightarrow>
           (st'', reg'', (case c of None \<Rightarrow> [] | Some x \<Rightarrow> [x]) @ cs)))"

text \<open>
  The states the screen can reach from its mount, under any events at any clock values.
  The environment is over-approximated: a settling event may come at any time, and the
  step ignores it unless the send is waiting for it.
\<close>

inductive chat_reachable :: "js_opt_str \<Rightarrow> bool \<Rightarrow> chat_state \<Rightarrow> url_registry \<Rightarrow> bool"
  for uid guest where
  init: "chat_reachable uid guest (initial_chat t) empty_registry"
| step: "chat_reachable uid guest st reg \<Longrightarrow> chat_step uid guest t e st reg = (st', reg', c) \<Longrightarrow>
         chat_reachable uid guest st' reg'"

text \<open>
  The screen's invariant: the greeting comes first and turns alternate (message \<open>i\<close> is
  the user's iff \<open>i\<close> is odd), so the screen is loading exactly when the last message is
  the user's; it is loading exactly when a send is suspended; and while loading the
  input and the pending attachment are empty.
\<close>

definition chat_inv :: "chat_state \<Rightarrow> bool" where
  "chat_inv st \<longleftrightarrow> messages st \<noteq> []
     \<and> map is_user (messages st) = map odd [0..<length (messages st)]
     \<and> (loading st \<longleftrightarrow> even (length (messages st)))
     \<and> (loading st \<longleftrightarrow> phase st \<noteq> Idle)
     \<and> (loading st \<longrightarrow> input st = [] \<and> chat_file st = None)"

text \<open>The events that are the settling of a call rather than a user action.\<close>

fun settles :: "chat_event \<Rightarrow> bool" where
  "settles (Upload_settled _) = True"
| "settles (Chat_settled _) = True"
| "settles _ = False"

text \<open>The attachment record \<open>handleSend\<close> builds for a file, with the URL it creates.\<close>

definition sent_media :: "js_file \<Rightarrow> url_registry \<Rightarrow> media" where
  "sent_media f reg = \<lparr>media_kind = get_media_type f, media_url = url_of (next_url reg), media_name = file_name f\<rparr>"

text \<open>
  The well-formedness of the messages, which the rendering of the message list relies
  on: every message has a decimal id (as \<open>toString\<close> writes it), a non-empty content
  and a non-empty timestamp, and the URL of every attachment shown is live in the
  registry.
\<close>

definition msgs_ok :: "chat_state \<Rightarrow> url_registry \<Rightarrow> bool" where
  "msgs_ok st reg \<longleftrightarrow> (\<forall>m \<in> set (messages st). is_decimal (msg_id m) \<and> content m \<noteq> [] \<and> timestamp m \<noteq> []
      \<and> (\<forall>md. msg_media m = Some md \<longrightarrow> media_url md \<in> dom (live_urls reg)))"

section \<open>Lemmas: the invariant\<close>

lemmas chat_simps = append_msg_def finish_send_def bot_message_def user_message_def chat_reply_def

lemma chat_inv_loading: "chat_inv st \<Longrightarrow> loading st \<longleftrightarrow> phase st \<noteq> Idle"
  unfolding chat_inv_def by blast

lemma append_bot_inv:
  assumes "chat_inv st" "loading st"
  shows "chat_inv (finish_send (append_msg (bot_message now txt ts) st))"
  using assms by (simp add: chat_inv_def chat_simps)

lemma initial_chat_inv: "chat_inv (initial_chat now)"
  by (simp add: chat_inv_def initial_chat_def)

lemma send_continue_inv:
  assumes "chat_inv st" "loading st" "js_trim cur \<noteq> [] \<or> f \<noteq> None"
  shows "chat_inv (fst (send_continue uid g now cur f st))"
  using assms append_bot_inv [OF assms(1,2)]
  by (auto simp: send_continue_def chat_inv_def)

lemma handle_send_inv:
  assumes "chat_inv st" "\<not> loading st"
  shows "chat_inv (fst (handle_send uid g now st reg))"
proof (cases "js_trim (input st) = [] \<and> chat_file st = None")
  case True
  with assms show ?thesis by (simp add: handle_send_def)
next
  case False
  let ?st1 = "\<lambda>med. (append_msg (user_message now (input st) med (chat_file st)) st)
                 \<lparr>input := [], chat_file := None, loading := True\<rparr>"
  have st1: "chat_inv ((?st1 med)\<lparr>phase := p\<rparr>)" if "p \<noteq> Idle" for med p
    using assms that by (simp add: chat_inv_def chat_simps)
  show ?thesis
  proof (cases "chat_file st")
    case None
    with False have "js_trim (input st) \<noteq> []" by simp
    then show ?thesis using None False st1
      by (simp add: handle_send_def send_continue_def)
  next
    case (Some f)
    with False st1 show ?thesis
      by (simp add: handle_send_def split: prod.splits)
  qed
qed

lemma upload_done_inv:
  assumes "chat_inv st"
  shows "chat_inv (fst (upload_done uid g now res st))"
proof (cases "phase st")
  case (Awaiting_upload cur f)
  with chat_inv_loading [OF assms] have "loading st" by simp
  with assms Awaiting_upload show ?thesis
    using append_bot_inv send_continue_inv
    by (simp add: upload_done_def split: outcome.splits)
qed (use assms in \<open>simp_all add: upload_done_def\<close>)

lemma chat_done_inv:
  assumes "chat_inv st"
  shows "chat_inv (chat_done now res st)"
proof (cases "phase st")
  case (Awaiting_chat q)
  with chat_inv_loading [OF assms] have "loading st" by simp
  with assms Awaiting_chat show ?thesis
    using append_bot_inv
    by (simp add: chat_done_def chat_reply_def split: outcome.splits)
qed (use assms in \<open>simp_all add: chat_done_def\<close>)

lemma chat_step_inv:
  assumes "chat_inv st"
  shows "chat_inv (fst (chat_step uid g now e st reg))"
proof (cases e)
  case (Upload_settled res)
  with assms upload_done_inv show ?thesis by (simp add: split_beta)
next
  case (Chat_settled res)
  with assms chat_done_inv show ?thesis by simp
next
  case Click_send
  with assms handle_send_inv show ?thesis by (simp add: send_disabled_def)
next
  case (Key_down k sh)
  with assms handle_send_inv show ?thesis by (simp add: handle_key_press_def)
qed (use assms in \<open>auto simp: chat_inv_def handle_file_change_def split: option.splits list.splits\<close>)

text \<open>
  C1: every state the chat screen can reach satisfies its invariant: the greeting
  first and then strictly alternating user and assistant messages, \<open>loading\<close> exactly
  while a send is suspended (and exactly when the last message is the user's), and an
  empty input and attachment slot while loading.
\<close>

theorem chat_reachable_inv: "chat_reachable uid guest st reg \<Longrightarrow> chat_inv st"
proof (induction rule: chat_reachable.induct)
  case (init t)
  show ?case by (rule initial_chat_inv)
next
  case (step st reg t e st' reg' c)
  then show ?case using chat_step_inv [OF step.IH, of uid guest t e reg] by simp
qed

theorem chat_reachable_inv_witness:
  "chat_reachable None False (initial_chat 0) empty_registry \<and> chat_inv (initial_chat 0)"
  using chat_reachable.init [of None False 0] chat_reachable_inv [OF chat_reachable.init [of None False 0]]
  by simp

section \<open>Lemmas: timestamps and attachment URLs\<close>

lemma chat_texts_nonempty [simp]:
  "greeting_text \<noteq> []" "file_ack_text \<noteq> []" "connection_error_text \<noteq> []" "chat_default_text \<noteq> []"
  by (simp_all add: greeting_text_def file_ack_text_def connection_error_text_def chat_default_text_def)

lemma msgs_ok_append_bot:
  "msgs_ok st reg \<Longrightarrow> msgs_ok (finish_send (append_msg (bot_message now txt ts) st)) reg \<longleftrightarrow> txt \<noteq> [] \<and> ts \<noteq> []"
  by (auto simp: msgs_ok_def chat_simps nat_str_decimal)

lemma send_continue_msgs_ok: "msgs_ok st reg \<Longrightarrow> msgs_ok (fst (send_continue uid g now cur f st)) reg"
  by (simp add: send_continue_def msgs_ok_append_bot) (auto simp: msgs_ok_def finish_send_def)

lemma handle_send_msgs_ok:
  assumes "msgs_ok st reg"
  shows "msgs_ok (fst (handle_send uid g now st reg)) (fst (snd (handle_send uid g now st reg)))"
proof (cases "chat_file st")
  case None
  with assms show ?thesis
    by (auto simp: handle_send_def send_continue_def msgs_ok_def chat_simps nat_str_decimal js_or_def truthy_def
        split: prod.splits)
next
  case (Some f)
  have mono: "dom (live_urls reg) \<subseteq> dom (live_urls (snd (create_object_url f reg)))"
    by (rule create_object_url_mono)
  with Some assms show ?thesis
    by (auto simp: handle_send_def msgs_ok_def chat_simps create_object_url_def nat_str_decimal js_or_def
        split: prod.splits)
qed

lemma upload_done_msgs_ok: "msgs_ok st reg \<Longrightarrow> msgs_ok (fst (upload_done uid g now res st)) reg"
  by (auto simp: upload_done_def send_continue_msgs_ok msgs_ok_append_bot split: send_phase.splits outcome.splits)

lemma chat_done_msgs_ok: "msgs_ok st reg \<Longrightarrow> msgs_ok (chat_done now res st) reg"
  by (auto simp: chat_done_def chat_reply_def msgs_ok_append_bot js_or_opt_nonempty split: send_phase.splits outcome.splits)

lemma chat_step_msgs_ok:
  assumes "msgs_ok st reg"
  shows "msgs_ok (fst (chat_step uid g now e st reg)) (fst (snd (chat_step uid g now e st reg)))"
proof (cases e)
  case Click_send
  with assms handle_send_msgs_ok show ?thesis by simp
next
  case (Key_down k sh)
  with assms handle_send_msgs_ok show ?thesis by (simp add: handle_key_press_def)
next
  case (Upload_settled res)
  with assms upload_done_msgs_ok show ?thesis by (simp add: split_beta)
next
  case (Chat_settled res)
  with assms chat_done_msgs_ok show ?thesis by simp
qed (use assms in \<open>auto simp: msgs_ok_def handle_file_change_def split: option.splits list.splits\<close>)

lemma msgs_ok_initial [simp]: "msgs_ok (initial_chat now) reg"
  by (simp add: msgs_ok_def initial_chat_def is_decimal_def is_digit_def)

lemma chat_reachable_msgs_ok: "chat_reachable uid g st reg \<Longrightarrow> msgs_ok st reg"
proof (induction rule: chat_reachable.induct)
  case (init t)
  show ?case by simp
next
  case (step st reg t e st' reg' c)
  then show ?case using chat_step_msgs_ok [OF step.IH, of uid g t e] by simp
qed

section \<open>Lemmas: messages are append-only\<close>

lemma send_continue_prefix: "prefix (messages st) (messages (fst (send_continue uid g now cur f st)))"
  by (simp add: send_continue_def chat_simps)

lemma handle_send_prefix: "prefix (messages st) (messages (fst (handle_send uid g now st reg)))"
  by (auto simp: handle_send_def send_continue_def chat_simps split: prod.splits option.splits)

lemma upload_done_prefix: "prefix (messages st) (messages (fst (upload_done uid g now res st)))"
  by (auto simp: upload_done_def send_continue_prefix chat_simps split: send_phase.splits outcome.splits)

lemma chat_done_prefix: "prefix (messages st) (messages (chat_done now res st))"
  by (auto simp: chat_done_def chat_simps split: send_phase.splits outcome.splits)

text \<open>
  C2: no event removes, reorders or changes a message already shown: the old message
  list is a prefix of the new one.  In particular a message's attachment never changes
  after the message is created.
\<close>

theorem chat_step_prefix: "prefix (messages st) (messages (fst (chat_step uid g now e st reg)))"
  by (cases e) (auto simp: handle_send_prefix upload_done_prefix chat_done_prefix split_beta
      handle_file_change_def handle_key_press_def split: option.splits list.splits)

section \<open>Lemmas: one send at a time\<close>

text \<open>
  C3: while a send is in flight (\<open>loading\<close>), no user action issues an API call,
  changes the suspended send, or adds a message: the disabled input, paperclip and send
  button, and the guard of the key handler, leave nothing that could start a second send.
\<close>

theorem busy_ui_event_no_call:
  assumes "loading st" "\<not> settles e"
  shows "snd (snd (chat_step uid g now e st reg)) = None
       \<and> phase (fst (chat_step uid g now e st reg)) = phase st
       \<and> messages (fst (chat_step uid g now e st reg)) = messages st"
  using assms by (cases e) (simp_all add: send_disabled_def)

theorem busy_ui_event_no_call_witness:
  "loading ((initial_chat 0)\<lparr>loading := True, phase := Awaiting_chat ''hi''\<rparr>) \<and> \<not> settles Click_send
   \<and> snd (snd (chat_step None False 5 Click_send ((initial_chat 0)\<lparr>loading := True, phase := Awaiting_chat ''hi''\<rparr>) empty_registry)) = None"
  using busy_ui_event_no_call [of "(initial_chat 0)\<lparr>loading := True, phase := Awaiting_chat ''hi''\<rparr>" Click_send None False 5 empty_registry]
  by simp

section \<open>Lemmas: a send of text and a file\<close>

text \<open>
  C4: sending text together with an attachment appends one user message that carries
  both, issues the upload call, and only after the upload has resolved issues the chat
  call; when the chat call resolves, its reply is appended and loading ends.  The calls
  are sequential: the chat call is issued by the upload's settling, never with it.
\<close>

theorem send_text_and_file_order:
  assumes "\<not> loading st" "chat_file st = Some f" "js_trim (input st) \<noteq> []"
  shows "let run = chat_run uid g [(t_send, Click_send), (t_up, Upload_settled (Resolved u)),
                                   (t_chat, Chat_settled (Resolved r))] st reg
       in snd (snd run) = [Call_upload uid f g, Call_chat uid (input st) g]
       \<and> messages (fst run) = messages st @ [user_message t_send (input st) (Some (sent_media f reg)) (Some f),
                                             chat_reply t_chat r]
       \<and> \<not> loading (fst run) \<and> phase (fst run) = Idle"
  using assms
  by (simp add: send_disabled_def handle_send_def create_object_url_def sent_media_def upload_done_def
      send_continue_def chat_done_def append_msg_def finish_send_def)

theorem send_text_and_file_order_witness:
  "snd (snd (chat_run None False [(1, Click_send), (2, Upload_settled (Resolved \<lparr>up_processed = True, up_error = None\<rparr>)),
        (3, Chat_settled (Resolved \<lparr>cr_user_id = None, cr_response = Some ''ok'', cr_timestamp = None, cr_error = None\<rparr>))]
        ((initial_chat 0)\<lparr>input := ''hi'', chat_file := Some \<lparr>file_name = ''a.png'', file_mime = ''image/png'', file_blob = 7\<rparr>\<rparr>)
        empty_registry))
   = [Call_upload None \<lparr>file_name = ''a.png'', file_mime = ''image/png'', file_blob = 7\<rparr> False, Call_chat None ''hi'' False]"
proof -
  let ?f = "\<lparr>file_name = ''a.png'', file_mime = ''image/png'', file_blob = 7\<rparr>"
  let ?st = "(initial_chat 0)\<lparr>input := ''hi'', chat_file := Some ?f\<rparr>"
  have h1: "\<not> loading ?st" and h2: "chat_file ?st = Some ?f" by (simp_all add: initial_chat_def)
  have h3: "js_trim (input ?st) \<noteq> []" by (simp add: js_trim_def js_ws_def)
  have "snd (snd (chat_run None False [(1, Click_send), (2, Upload_settled (Resolved \<lparr>up_processed = True, up_error = None\<rparr>)),
        (3, Chat_settled (Resolved \<lparr>cr_user_id = None, cr_response = Some ''ok'', cr_timestamp = None, cr_error = None\<rparr>))]
        ?st empty_registry)) = [Call_upload None ?f False, Call_chat None (input ?st) False]"
    using send_text_and_file_order [OF h1 h2 h3, where uid = None and g = False and t_send = 1 and t_up = 2
        and u = "\<lparr>up_processed = True, up_error = None\<rparr>" and t_chat = 3
        and r = "\<lparr>cr_user_id = None, cr_response = Some ''ok'', cr_timestamp = None, cr_error = None\<rparr>"
        and reg = empty_registry]
    unfolding Let_def by (rule conjunct1)
  then show ?thesis by (simp del: chat_run.simps)
qed


text \<open>
  C5: when the chat call resolves to an object, the appended assistant message takes
  its text from the server's \<open>response\<close> if that is a non-empty string, else from its
  \<open>error\<close>, else the generic acknowledgement; its timestamp is the server's \<open>timestamp\<close>
  if non-empty, else the current time; and the send ends.
\<close>

theorem chat_done_reply:
  assumes "phase st = Awaiting_chat q"
  shows "messages (chat_done now (Resolved r) st) = messages st @ [chat_reply now r]
       \<and> \<not> loading (chat_done now (Resolved r) st)
       \<and> content (chat_reply now r) =
           (if opt_truthy (cr_response r) then the (cr_response r)
            else if opt_truthy (cr_error r) then the (cr_error r) else chat_default_text)
       \<and> timestamp (chat_reply now r) =
           (if opt_truthy (cr_timestamp r) then the (cr_timestamp r) else to_iso_string now)
       \<and> \<not> is_user (chat_reply now r)"
  using assms by (simp add: chat_done_def chat_simps)

theorem chat_done_reply_witness:
  "messages (chat_done 5 (Resolved \<lparr>cr_user_id = None, cr_response = None, cr_timestamp = Some ''T'', cr_error = Some ''bad''\<rparr>)
       ((initial_chat 0)\<lparr>phase := Awaiting_chat ''q''\<rparr>)) = messages (initial_chat 0) @
     [chat_reply 5 \<lparr>cr_user_id = None, cr_response = None, cr_timestamp = Some ''T'', cr_error = Some ''bad''\<rparr>]
   \<and> content (chat_reply 5 \<lparr>cr_user_id = None, cr_response = None, cr_timestamp = Some ''T'', cr_error = Some ''bad''\<rparr>) = ''bad''
   \<and> timestamp (chat_reply 5 \<lparr>cr_user_id = None, cr_response = None, cr_timestamp = Some ''T'', cr_error = Some ''bad''\<rparr>) = ''T''"
  using chat_done_reply [of "(initial_chat 0)\<lparr>phase := Awaiting_chat ''q''\<rparr>" "''q''" 5
     "\<lparr>cr_user_id = None, cr_response = None, cr_timestamp = Some ''T'', cr_error = Some ''bad''\<rparr>"]
  by simp

text \<open>
  C6: when the chat call fails (the transport fails, the body is not JSON, or the body
  is \<open>null\<close> so that reading a field throws), exactly one assistant message with the
  connectivity-failure text is appended and loading returns to false.
\<close>

theorem chat_done_failure:
  assumes "phase st = Awaiting_chat q" "res = Net_failure \<or> res = Resolved_null"
  shows "messages (chat_done now res st) = messages st @ [bot_message now connection_error_text (to_iso_string now)]
       \<and> \<not> loading (chat_done now res st) \<and> phase (chat_done now res st) = Idle"
  using assms by (auto simp: chat_done_def chat_simps)

theorem chat_done_failure_witness:
  "messages (chat_done 9 Resolved_null ((initial_chat 0)\<lparr>phase := Awaiting_chat ''q''\<rparr>))
     = messages (initial_chat 0) @ [bot_message 9 connection_error_text (to_iso_string 9)]"
  using chat_done_failure [of "(initial_chat 0)\<lparr>phase := Awaiting_chat ''q''\<rparr>" "''q''" Resolved_null 9]
  by simp

text \<open>
  C7: an upload that fails at the transport level aborts the whole send: the chat call
  for the text typed with the attachment is never issued, and the only reply is the
  connectivity-failure message.  (The upload and the chat call are not independent
  failure domains.)
\<close>

theorem upload_failure_skips_chat:
  assumes "\<not> loading st" "chat_file st = Some f" "js_trim (input st) \<noteq> []"
  shows "let run = chat_run uid g [(t_send, Click_send), (t_up, Upload_settled Net_failure)] st reg
         in snd (snd run) = [Call_upload uid f g]
          \<and> messages (fst run) = messages st @ [user_message t_send (input st) (Some (sent_media f reg)) (Some f),
                                                bot_message t_up connection_error_text (to_iso_string t_up)]
          \<and> \<not> loading (fst run)"
  using assms
  by (simp add: send_disabled_def handle_send_def create_object_url_def sent_media_def upload_done_def
      append_msg_def finish_send_def)

theorem upload_failure_skips_chat_witness:
  "snd (snd (chat_run None True [(1, Click_send), (2, Upload_settled Net_failure)]
        ((initial_chat 0)\<lparr>input := ''hello'', chat_file := Some \<lparr>file_name = ''n.txt'', file_mime = ''text/plain'', file_blob = 3\<rparr>\<rparr>)
        empty_registry))
   = [Call_upload None \<lparr>file_name = ''n.txt'', file_mime = ''text/plain'', file_blob = 3\<rparr> True]"
proof -
  let ?f = "\<lparr>file_name = ''n.txt'', file_mime = ''text/plain'', file_blob = 3\<rparr>"
  let ?st = "(initial_chat 0)\<lparr>input := ''hello'', chat_file := Some ?f\<rparr>"
  have h1: "\<not> loading ?st" and h2: "chat_file ?st = Some ?f" by (simp_all add: initial_chat_def)
  have h3: "js_trim (input ?st) \<noteq> []" by (simp add: js_trim_def js_ws_def)
  show ?thesis
    using upload_failure_skips_chat [OF h1 h2 h3, where uid = None and g = True and t_send = 1 and t_up = 2
        and reg = empty_registry]
    unfolding Let_def by (rule conjunct1)
qed

text \<open>
  C8: a send with blank text (empty or white space only) and no attachment does
  nothing, whether it comes from the send button or from the Enter key: no message, no
  call, no state change.
\<close>

theorem blank_send_ignored:
  assumes "js_trim (input st) = []" "chat_file st = None" "e = Click_send \<or> e = Key_down ''Enter'' False"
  shows "chat_step uid g now e st reg = (st, reg, None)"
  using assms by (auto simp: send_disabled_def handle_send_def handle_key_press_def)

theorem blank_send_ignored_witness:
  "chat_step None False 4 (Key_down ''Enter'' False) ((initial_chat 0)\<lparr>input := '' \<newline>''\<rparr>) empty_registry
     = ((initial_chat 0)\<lparr>input := '' \<newline>''\<rparr>, empty_registry, None)"
proof -
  have h1: "js_trim (input ((initial_chat 0)\<lparr>input := '' \<newline>''\<rparr>)) = []" by (simp add: js_trim_def js_ws_def)
  have h2: "chat_file ((initial_chat 0)\<lparr>input := '' \<newline>''\<rparr>) = None" by (simp add: initial_chat_def)
  show ?thesis using blank_send_ignored [OF h1 h2, of "Key_down ''Enter'' False" None False 4 empty_registry] by simp
qed


text \<open>
  C23: message ids (\<open>Date.now().toString()\<close> for the user's message,
  \<open>(Date.now() + 1).toString()\<close> for the reply) are neither unique nor in generation
  order, from any state waiting on its chat call and for every clock value: when the
  reply settles at t and the user sends at t + 1, the new message gets the reply's id;
  when the user sends in the same millisecond t, the later message gets the smaller id.
\<close>

theorem chat_ids_not_unique_nor_ordered:
  assumes "phase st = Awaiting_chat q" "js_trim s \<noteq> []"
  shows "let n = length (messages st);
             later = messages (fst (chat_run uid g [(t, Chat_settled (Resolved r)), (Suc t, Type_input s),
                                                   (Suc t, Click_send)] st reg));
             same = messages (fst (chat_run uid g [(t, Chat_settled (Resolved r)), (t, Type_input s),
                                                  (t, Click_send)] st reg))
         in length later = n + 2 \<and> length same = n + 2
          \<and> is_user (later ! (n + 1)) \<and> \<not> is_user (later ! n)
          \<and> msg_id (later ! (n + 1)) = msg_id (later ! n)
          \<and> str_nat (msg_id (same ! (n + 1))) < str_nat (msg_id (same ! n))"
  using assms
  by (auto simp: chat_done_def send_disabled_def handle_send_def send_continue_def chat_simps
      nth_append split_beta split: option.splits)

theorem chat_ids_not_unique_nor_ordered_witness:
  "msg_id (messages (fst (chat_run None False [(20, Chat_settled (Resolved \<lparr>cr_user_id = None, cr_response = Some ''ok'',
              cr_timestamp = None, cr_error = None\<rparr>)), (Suc 20, Type_input ''b''), (Suc 20, Click_send)]
            ((initial_chat 0)\<lparr>phase := Awaiting_chat ''a''\<rparr>) empty_registry)) ! (1 + 1))
   = msg_id (messages (fst (chat_run None False [(20, Chat_settled (Resolved \<lparr>cr_user_id = None, cr_response = Some ''ok'',
              cr_timestamp = None, cr_error = None\<rparr>)), (Suc 20, Type_input ''b''), (Suc 20, Click_send)]
            ((initial_chat 0)\<lparr>phase := Awaiting_chat ''a''\<rparr>) empty_registry)) ! 1)"
proof -
  have p: "phase ((initial_chat 0)\<lparr>phase := Awaiting_chat ''a''\<rparr>) = Awaiting_chat ''a''" by simp
  have b: "js_trim ''b'' \<noteq> []" by (simp add: js_trim_def js_ws_def)
  have n: "length (messages ((initial_chat 0)\<lparr>phase := Awaiting_chat ''a''\<rparr>)) = 1" by (simp add: initial_chat_def)
  from chat_ids_not_unique_nor_ordered [OF p b, where t = 20 and uid = None and g = False and reg = empty_registry and r =
      "\<lparr>cr_user_id = None, cr_response = Some ''ok'', cr_timestamp = None, cr_error = None\<rparr>"]
  show ?thesis unfolding Let_def n by blast
qed

text \<open>
  C24: a send whose text is white space only, with an attachment, shows that white
  space as the user message's text (not the \<open>Uploaded: name\<close> label, which is used only
  for empty text), uploads the file, makes no chat call, and replies with the canned
  file acknowledgement.
\<close>

theorem whitespace_text_with_file:
  assumes "\<not> loading st" "chat_file st = Some f" "input st \<noteq> []" "js_trim (input st) = []"
  shows "let run = chat_run uid g [(t_send, Click_send), (t_up, Upload_settled (Resolved u))] st reg
         in snd (snd run) = [Call_upload uid f g]
          \<and> messages (fst run) = messages st @ [user_message t_send (input st) (Some (sent_media f reg)) (Some f),
                                                bot_message t_up file_ack_text (to_iso_string t_up)]
          \<and> content (user_message t_send (input st) (Some (sent_media f reg)) (Some f)) = input st"
  using assms
  by (simp add: send_disabled_def handle_send_def create_object_url_def sent_media_def upload_done_def
      send_continue_def append_msg_def finish_send_def user_message_def js_or_def truthy_def)

theorem whitespace_text_with_file_witness:
  "snd (snd (chat_run None False [(1, Click_send), (2, Upload_settled (Resolved \<lparr>up_processed = True, up_error = None\<rparr>))]
        ((initial_chat 0)\<lparr>input := ''  '', chat_file := Some \<lparr>file_name = ''a.mp3'', file_mime = ''audio/mpeg'', file_blob = 2\<rparr>\<rparr>)
        empty_registry))
   = [Call_upload None \<lparr>file_name = ''a.mp3'', file_mime = ''audio/mpeg'', file_blob = 2\<rparr> False]"
proof -
  let ?f = "\<lparr>file_name = ''a.mp3'', file_mime = ''audio/mpeg'', file_blob = 2\<rparr>"
  let ?st = "(initial_chat 0)\<lparr>input := ''  '', chat_file := Some ?f\<rparr>"
  have h1: "\<not> loading ?st" and h2: "chat_file ?st = Some ?f" and h3: "input ?st \<noteq> []"
    by (simp_all add: initial_chat_def)
  have h4: "js_trim (input ?st) = []" by (simp add: js_trim_def js_ws_def)
  show ?thesis
    using whitespace_text_with_file [OF h1 h2 h3 h4, where uid = None and g = False and t_send = 1 and t_up = 2
        and u = "\<lparr>up_processed = True, up_error = None\<rparr>" and reg = empty_registry]
    unfolding Let_def by (rule conjunct1)
qed

text \<open>
  C31: pressing Enter without Shift in the input does exactly what clicking the send
  button does, in every state: the key handler calls \<open>handleSend\<close> without the button's
  \<open>disabled\<close> check, but the input is disabled while loading and \<open>handleSend\<close> itself
  returns on blank text without a file.
\<close>

theorem enter_key_is_click_send:
  "chat_step uid g now (Key_down ''Enter'' False) st reg = chat_step uid g now Click_send st reg"
  by (simp add: handle_key_press_def send_disabled_def handle_send_def)

text \<open>
  C32: every call a chat screen makes carries the session's user id and guest flag: it is
  either a chat call with non-blank text or the upload of the attachment the screen holds.
\<close>

theorem calls_carry_session:
  assumes "snd (snd (chat_step uid g now e st reg)) = Some c"
  shows "(\<exists>q. c = Call_chat uid q g \<and> js_trim q \<noteq> []) \<or> (\<exists>f. c = Call_upload uid f g \<and> chat_file st = Some f)"
  using assms
  by (cases e) (auto simp: handle_send_def handle_key_press_def send_continue_def upload_done_def split_beta
      split: if_splits option.splits send_phase.splits outcome.splits)

theorem calls_carry_session_witness:
  "snd (snd (chat_step (Some ''u1'') False 4 Click_send ((initial_chat 0)\<lparr>input := ''hi''\<rparr>) empty_registry))
     = Some (Call_chat (Some ''u1'') ''hi'' False)
   \<and> ((\<exists>q. Call_chat (Some ''u1'') ''hi'' False = Call_chat (Some ''u1'') q False \<and> js_trim q \<noteq> [])
      \<or> (\<exists>f. Call_chat (Some ''u1'') ''hi'' False = Call_upload (Some ''u1'') f False
             \<and> chat_file ((initial_chat 0)\<lparr>input := ''hi''\<rparr>) = Some f))"
proof -
  have c: "snd (snd (chat_step (Some ''u1'') False 4 Click_send ((initial_chat 0)\<lparr>input := ''hi''\<rparr>) empty_registry))
     = Some (Call_chat (Some ''u1'') ''hi'' False)"
    by (simp add: send_disabled_def handle_send_def send_continue_def initial_chat_def js_trim_def js_ws_def split_beta)
  show ?thesis using c calls_carry_session [OF c] by simp
qed

text \<open>
  C33: a suspended send always ends once its calls settle, whatever the server answers
  (a failure, a \<open>null\<close> body or any object): a send waiting on its upload is over after
  the upload and, if one was made, the chat call settle; a send waiting on its chat call
  is over when that call settles.  Only a call that never settles keeps the screen busy.
\<close>

theorem suspended_send_ends:
  "case phase st of
     Idle \<Rightarrow> True
   | Awaiting_upload q f \<Rightarrow>
       \<not> loading (fst (chat_run uid g [(t_up, Upload_settled ru), (t_chat, Chat_settled rc)] st reg))
       \<and> phase (fst (chat_run uid g [(t_up, Upload_settled ru), (t_chat, Chat_settled rc)] st reg)) = Idle
   | Awaiting_chat q \<Rightarrow>
       \<not> loading (fst (chat_run uid g [(t_chat, Chat_settled rc)] st reg))
       \<and> phase (fst (chat_run uid g [(t_chat, Chat_settled rc)] st reg)) = Idle"
  by (auto simp: upload_done_def send_continue_def chat_done_def chat_simps split_beta
      split: send_phase.splits outcome.splits)

text \<open>
  C35: every message of every reachable state is well formed: its id is a decimal numeral
  as \<open>Number.prototype.toString\<close> writes it (digits only, no leading zero), so that
  parsing it and printing the number again gives it back, its content
  is non-empty (an empty input with an attachment shows \<open>Uploaded: name\<close>, every
  assistant text falls back to a non-empty default) and its timestamp is non-empty.
\<close>

theorem messages_well_formed:
  assumes "chat_reachable uid g st reg"
  shows "\<forall>m \<in> set (messages st). is_decimal (msg_id m) \<and> nat_str (str_nat (msg_id m)) = msg_id m
           \<and> content m \<noteq> [] \<and> timestamp m \<noteq> []"
  using chat_reachable_msgs_ok [OF assms] by (simp add: msgs_ok_def nat_str_str_nat)

theorem messages_well_formed_witness:
  "is_decimal (msg_id (hd (messages (initial_chat 7))))
   \<and> nat_str (str_nat (msg_id (hd (messages (initial_chat 7))))) = msg_id (hd (messages (initial_chat 7)))
   \<and> content (hd (messages (initial_chat 7))) \<noteq> []
   \<and> timestamp (hd (messages (initial_chat 7))) \<noteq> []"
proof -
  have "hd (messages (initial_chat 7)) \<in> set (messages (initial_chat 7))" by (simp add: initial_chat_def)
  with messages_well_formed [OF chat_reachable.init [of None False 7]] show ?thesis by blast
qed

lemma chat_step_growth:
  "length (messages (fst (chat_step uid g now e st reg))) \<le> Suc (length (messages st))"
  by (cases e) (auto simp: handle_send_def handle_key_press_def send_continue_def upload_done_def chat_done_def
      handle_file_change_def chat_simps split_beta split: option.splits list.splits send_phase.splits outcome.splits)

text \<open>
  C37: each event adds at most one message and makes at most one call: a run of n events
  grows the message list by at most n and issues at most n calls.
\<close>

theorem chat_run_growth:
  "length (messages (fst (chat_run uid g evs st reg))) \<le> length (messages st) + length evs
   \<and> length (snd (snd (chat_run uid g evs st reg))) \<le> length evs"
proof (induction evs arbitrary: st reg)
  case Nil
  then show ?case by simp
next
  case (Cons te evs)
  obtain t e where te: "te = (t, e)" by (cases te)
  obtain st' reg' c where s: "chat_step uid g t e st reg = (st', reg', c)" by (cases "chat_step uid g t e st reg")
  have "length (messages st') \<le> Suc (length (messages st))"
    using chat_step_growth [of uid g t e st reg] s by simp
  with Cons.IH [of st' reg'] te s show ?case by (auto split: option.splits prod.splits)
qed

end
