(* ===== verification/App.thy ===== *)
theory App
  imports AuthScreen ChatScreen
begin

text \<open>
  The root container of src/src/App.tsx and the system it composes.  \<open>App\<close> keeps
  the session (\<open>{userId, isGuest} | null\<close>) and renders the auth screen when it is null
  and the chat screen otherwise; \<open>handleAuth\<close> sets it, \<open>handleLogout\<close> clears it and
  \<open>localStorage\<close>.  Switching the view unmounts one screen and mounts a fresh instance
  of the other, which starts from its initial state (and, for the auth screen, runs its
  mount effect).  A chat screen unmounted while a send is suspended leaves that
  asynchronous continuation running: its React state updates are dropped, but its
  remaining API calls are still made.  Such continuations are the \<open>orphans\<close>.
  A page reload discards everything but \<open>localStorage\<close>.
\<close>

section \<open>State\<close>

record session =
  sess_user :: js_opt_str
  sess_guest :: bool

datatype screen = Auth_screen auth_state | Chat_screen chat_state

record orphan =
  orph_id :: nat
  orph_user :: js_opt_str
  orph_guest :: bool
  orph_chat :: chat_state

record app_state =
  session :: "session option"
  screen :: screen
  inst_id :: nat
  store :: storage
  urls :: url_registry
  orphans :: "orphan list"

section \<open>Handlers\<close>

text \<open>\<open>handleAuth\<close>: the session is set, and the chat screen is mounted.\<close>

definition handle_auth :: "nat \<Rightarrow> js_opt_str \<Rightarrow> bool \<Rightarrow> app_state \<Rightarrow> app_state" where
  "handle_auth now uid g s =
     s\<lparr>session := Some \<lparr>sess_user = uid, sess_guest = g\<rparr>, screen := Chat_screen (initial_chat now),
       inst_id := Suc (inst_id s)\<rparr>"

text \<open>A fresh auth screen is mounted, and its effect may report a persisted session at once.\<close>

definition mount_auth :: "nat \<Rightarrow> app_state \<Rightarrow> app_state" where
  "mount_auth now s =
     (let s1 = s\<lparr>screen := Auth_screen initial_auth, inst_id := Suc (inst_id s)\<rparr>
      in case auth_mount (store s1) of None \<Rightarrow> s1 | Some (uid, g) \<Rightarrow> handle_auth now uid g s1)"

text \<open>
  \<open>handleLogout\<close>: \<open>setSession(null)\<close>, \<open>localStorage.removeItem("user_id")\<close>,
  \<open>localStorage.clear()\<close>; the chat screen is unmounted (its suspended send, if any, goes
  on as an orphan) and the auth screen is mounted.
\<close>

definition handle_logout :: "nat \<Rightarrow> chat_state \<Rightarrow> app_state \<Rightarrow> app_state" where
  "handle_logout now c s =
     (let orph = (case session s of
                    Some ss \<Rightarrow> if phase c \<noteq> Idle
                               then [\<lparr>orph_id = inst_id s, orph_user = sess_user ss, orph_guest = sess_guest ss,
                                      orph_chat = c\<rparr>]
                               else []
                  | None \<Rightarrow> []);
          s1 = s\<lparr>session := None, store := clear_storage (remove_item user_id_key (store s)),
                 orphans := orphans s @ orph\<rparr>
      in mount_auth now s1)"

text \<open>The page as loaded: nothing but the persisted storage survives.\<close>

definition app_start :: "nat \<Rightarrow> storage \<Rightarrow> app_state" where
  "app_start now st = mount_auth now \<lparr>session = None, screen = Auth_screen initial_auth, inst_id = 0,
     store = st, urls = empty_registry, orphans = []\<rparr>"

text \<open>
  The continuation of an orphaned send reacting to the settling of its call: it may
  issue the chat call; it is dropped once it has run to its end.  It touches nothing but
  the list of orphans.
\<close>

definition settle_orphan ::
  "nat \<Rightarrow> nat \<Rightarrow> chat_event \<Rightarrow> url_registry \<Rightarrow> orphan list \<Rightarrow> orphan list \<times> (nat \<times> api_call) option" where
  "settle_orphan now i e reg os =
     (case find (\<lambda>p. orph_id p = i) os of
        None \<Rightarrow> (os, None)
      | Some op \<Rightarrow>
          if \<not> settles e then (os, None)
          else (case chat_step (orph_user op) (orph_guest op) now e (orph_chat op) reg of
                  (c', r', call) \<Rightarrow>
                    (List.map_filter (\<lambda>p. if orph_id p \<noteq> i then Some p
                                          else if phase c' = Idle then None
                                          else Some (p\<lparr>orph_chat := c'\<rparr>)) os,
                     map_option (Pair i) call)))"

definition orphan_step ::
  "nat \<Rightarrow> nat \<Rightarrow> chat_event \<Rightarrow> app_state \<Rightarrow> app_state \<times> (nat \<times> api_call) option" where
  "orphan_step now i e s =
     (case settle_orphan now i e (urls s) (orphans s) of (os, c) \<Rightarrow> (s\<lparr>orphans := os\<rparr>, c))"

section \<open>The system\<close>

text \<open>
  Events of the whole client: an event of the mounted auth or chat screen (user actions
  and the settling of its own calls), the logout button, a page reload, and the settling
  of a call made by an orphaned send.  Each call issued is tagged with the instance that
  made it.
\<close>

datatype app_event =
    Auth_ev auth_event
  | Chat_ev chat_event
  | Logout
  | Reload
  | Orphan_ev nat chat_event

primrec app_step :: "nat \<Rightarrow> app_event \<Rightarrow> app_state \<Rightarrow> app_state \<times> (nat \<times> api_call) option" where
  "app_step now (Auth_ev e) s =
     (case screen s of
        Auth_screen a \<Rightarrow>
          (case auth_step e a (store s) of
             (a', st', c, cb) \<Rightarrow>
               (let s1 = s\<lparr>screen := Auth_screen a', store := st'\<rparr>
                in (case cb of None \<Rightarrow> s1 | Some (uid, g) \<Rightarrow> handle_auth now uid g s1),
                map_option (Pair (inst_id s)) c))
      | Chat_screen _ \<Rightarrow> (s, None))"
| "app_step now (Chat_ev e) s =
     (case (screen s, session s) of
        (Chat_screen c, Some ss) \<Rightarrow>
          (case chat_step (sess_user ss) (sess_guest ss) now e c (urls s) of
             (c', r', call) \<Rightarrow> (s\<lparr>screen := Chat_screen c', urls := r'\<rparr>, map_option (Pair (inst_id s)) call))
      | _ \<Rightarrow> (s, None))"
| "app_step now Logout s =
     (case screen s of Chat_screen c \<Rightarrow> (handle_logout now c s, None) | Auth_screen _ \<Rightarrow> (s, None))"
| "app_step now Reload s = (app_start now (store s), None)"
| "app_step now (Orphan_ev i e) s = orphan_step now i e s"

text \<open>A run of timed events, collecting the tagged calls in order.\<close>

fun app_run :: "(nat \<times> app_event) list \<Rightarrow> app_state \<Rightarrow> app_state \<times> (nat \<times> api_call) list" where
  "app_run [] s = (s, [])"
| "app_run ((t, e) # es) s =
     (case app_step t e s of (s', c) \<Rightarrow>
        (case app_run es s' of (s'', cs) \<Rightarrow> (s'', (case c of None \<Rightarrow> [] | Some x \<Rightarrow> [x]) @ cs)))"

inductive app_reachable :: "app_state \<Rightarrow> bool" where
  start: "app_reachable (app_start t st)"
| step: "app_reachable s \<Longrightarrow> app_step t e s = (s', c) \<Longrightarrow> app_reachable s'"

text \<open>
  The system invariant: the view is the auth screen exactly when there is no session;
  the mounted screen satisfies its own invariant; every orphan is a suspended send of an
  earlier instance.
\<close>

definition app_inv :: "app_state \<Rightarrow> bool" where
  "app_inv s \<longleftrightarrow>
     (case screen s of
        Auth_screen a \<Rightarrow> session s = None \<and> auth_inv a
      | Chat_screen c \<Rightarrow> session s \<noteq> None \<and> chat_inv c)
     \<and> (\<forall>p \<in> set (orphans s). orph_id p < inst_id s \<and> phase (orph_chat p) \<noteq> Idle)"

text \<open>The orphan part of the invariant, on its own.\<close>

definition orphans_ok :: "app_state \<Rightarrow> bool" where
  "orphans_ok s \<longleftrightarrow> (\<forall>p \<in> set (orphans s). orph_id p < inst_id s \<and> phase (orph_chat p) \<noteq> Idle)"

lemma app_inv_iff:
  "app_inv s \<longleftrightarrow> (case screen s of Auth_screen a \<Rightarrow> session s = None \<and> auth_inv a
                    | Chat_screen c \<Rightarrow> session s \<noteq> None \<and> chat_inv c) \<and> orphans_ok s"
  by (simp add: app_inv_def orphans_ok_def)

lemma orphans_ok_Suc: "orphans_ok s \<Longrightarrow> inst_id s \<le> inst_id s' \<Longrightarrow> orphans s' = orphans s \<Longrightarrow> orphans_ok s'"
  by (force simp: orphans_ok_def)

lemma handle_auth_inv: "orphans_ok s \<Longrightarrow> app_inv (handle_auth now uid g s)"
  by (auto simp: app_inv_iff handle_auth_def initial_chat_inv orphans_ok_def)

lemma mount_auth_inv:
  assumes "session s = None" "orphans_ok (s\<lparr>inst_id := Suc (inst_id s)\<rparr>)"
  shows "app_inv (mount_auth now s)"
proof -
  let ?s1 = "s\<lparr>screen := Auth_screen initial_auth, inst_id := Suc (inst_id s)\<rparr>"
  have ok1: "orphans_ok ?s1" using assms(2) by (simp add: orphans_ok_def)
  show ?thesis
  proof (cases "auth_mount (store s)")
    case None
    with assms(1) ok1 show ?thesis by (simp add: mount_auth_def app_inv_iff)
  next
    case (Some cb)
    then show ?thesis using handle_auth_inv [OF ok1]
      by (cases cb) (simp add: mount_auth_def)
  qed
qed

lemma app_start_inv: "app_inv (app_start now st)"
  by (simp add: app_start_def mount_auth_inv orphans_ok_def)

lemma handle_logout_inv:
  assumes "orphans_ok s"
  shows "app_inv (handle_logout now c s)"
proof -
  have ok: "orphans_ok (s\<lparr>session := None, store := st', orphans := orphans s @
       (case session s of Some ss \<Rightarrow> if phase c \<noteq> Idle
          then [\<lparr>orph_id = inst_id s, orph_user = sess_user ss, orph_guest = sess_guest ss, orph_chat = c\<rparr>]
          else [] | None \<Rightarrow> []), inst_id := Suc (inst_id s)\<rparr>)" for st'
    using assms by (auto simp: orphans_ok_def less_Suc_eq split: option.splits if_splits)
  show ?thesis
    unfolding handle_logout_def Let_def
    by (rule mount_auth_inv) (simp_all add: ok [simplified])
qed

lemma settle_orphan_ok:
  assumes "\<forall>p \<in> set os. orph_id p < n \<and> phase (orph_chat p) \<noteq> Idle"
  shows "\<forall>p \<in> set (fst (settle_orphan now i e reg os)). orph_id p < n \<and> phase (orph_chat p) \<noteq> Idle"
  using assms by (auto simp: settle_orphan_def List.map_filter_def split: option.splits prod.splits if_splits)

lemma orphan_step_inv:
  assumes "app_inv s"
  shows "app_inv (fst (orphan_step now i e s))"
proof -
  have "app_inv (s\<lparr>orphans := os\<rparr>) \<longleftrightarrow> orphans_ok (s\<lparr>orphans := os\<rparr>)" for os
    using assms by (simp add: app_inv_iff split: screen.splits)
  moreover have "orphans_ok (s\<lparr>orphans := fst (settle_orphan now i e (urls s) (orphans s))\<rparr>)"
    using settle_orphan_ok [of "orphans s" "inst_id s"] assms by (simp add: app_inv_iff orphans_ok_def)
  ultimately show ?thesis by (simp add: orphan_step_def split_beta)
qed

lemma app_step_inv:
  assumes "app_inv s"
  shows "app_inv (fst (app_step now e s))"
proof (cases e)
  case (Auth_ev ev)
  show ?thesis
  proof (cases "screen s")
    case (Auth_screen a)
    obtain a' st' c cb where as: "auth_step ev a (store s) = (a', st', c, cb)" by (cases "auth_step ev a (store s)") auto
    have ainv: "auth_inv a'" using auth_step_inv [of a ev "store s"] assms Auth_screen as
      by (simp add: app_inv_iff)
    have ok: "orphans_ok (s\<lparr>screen := Auth_screen a', store := st'\<rparr>)"
      using assms by (simp add: app_inv_iff orphans_ok_def)
    show ?thesis
    proof (cases cb)
      case None
      with Auth_ev Auth_screen as ainv ok assms show ?thesis by (simp add: app_inv_iff)
    next
      case (Some x)
      with Auth_ev Auth_screen as handle_auth_inv [OF ok] show ?thesis by (cases x) simp
    qed
  next
    case (Chat_screen c)
    with Auth_ev show ?thesis using assms by simp
  qed
next
  case (Chat_ev ev)
  show ?thesis
  proof (cases "screen s")
    case (Chat_screen c)
    with assms obtain ss where ss: "session s = Some ss" by (auto simp: app_inv_iff)
    obtain c' r' call where cs: "chat_step (sess_user ss) (sess_guest ss) now ev c (urls s) = (c', r', call)"
      by (cases "chat_step (sess_user ss) (sess_guest ss) now ev c (urls s)") auto
    have "chat_inv c'" using chat_step_inv [of c "sess_user ss" "sess_guest ss" now ev "urls s"] assms Chat_screen cs
      by (simp add: app_inv_iff)
    with Chat_ev Chat_screen ss cs assms show ?thesis by (simp add: app_inv_iff orphans_ok_def)
  next
    case (Auth_screen a)
    with Chat_ev assms show ?thesis by simp
  qed
next
  case Logout
  show ?thesis
  proof (cases "screen s")
    case (Chat_screen c)
    from assms have "orphans_ok s" by (simp add: app_inv_iff)
    with Logout Chat_screen show ?thesis by (simp add: handle_logout_inv)
  next
    case (Auth_screen a)
    with Logout assms show ?thesis by simp
  qed
next
  case Reload
  then show ?thesis by (simp add: app_start_inv)
next
  case (Orphan_ev i ev)
  with assms orphan_step_inv show ?thesis by simp
qed

lemma app_reachable_app_inv: "app_reachable s \<Longrightarrow> app_inv s"
proof (induction rule: app_reachable.induct)
  case (start t st)
  show ?case by (rule app_start_inv)
next
  case (step s t e s' c)
  then show ?case using app_step_inv [OF step.IH, of t e] by simp
qed

text \<open>
  C15: in every reachable state of the client the auth screen is shown exactly when
  there is no session, and a shown chat screen satisfies the chat screen's invariant:
  the two views are mutually exclusive and exhaustive.
\<close>

theorem view_matches_session:
  assumes "app_reachable s"
  shows "(session s = None \<longleftrightarrow> (\<exists>a. screen s = Auth_screen a))
       \<and> (\<forall>c. screen s = Chat_screen c \<longrightarrow> chat_inv c)"
  using app_reachable_app_inv [OF assms] by (auto simp: app_inv_def split: screen.splits)

theorem view_matches_session_witness:
  "session (app_start 0 Map.empty) = None \<and> (\<exists>a. screen (app_start 0 Map.empty) = Auth_screen a)"
  using view_matches_session [OF app_reachable.start [of 0 Map.empty]]
  by (simp add: app_start_def mount_auth_def auth_mount_def)

text \<open>
  C16: logging out clears the session and the whole \<open>localStorage\<close> (so no persisted
  id survives), issues no call, and shows a fresh auth screen whose mount effect,
  finding nothing persisted, does not log back in.
\<close>

theorem logout_returns_to_auth:
  assumes "screen s = Chat_screen c"
  shows "app_step now Logout s = (fst (app_step now Logout s), None)
       \<and> session (fst (app_step now Logout s)) = None
       \<and> store (fst (app_step now Logout s)) = Map.empty
       \<and> screen (fst (app_step now Logout s)) = Auth_screen initial_auth"
  using assms by (simp add: handle_logout_def mount_auth_def auth_mount_def clear_storage_def Let_def)

theorem logout_returns_to_auth_witness:
  "store (fst (app_step 5 Logout (app_start 0 [user_id_key \<mapsto> ''u1'']))) = Map.empty
   \<and> screen (fst (app_step 5 Logout (app_start 0 [user_id_key \<mapsto> ''u1'']))) = Auth_screen initial_auth"
proof -
  have h: "screen (app_start 0 [user_id_key \<mapsto> ''u1'']) = Chat_screen (initial_chat 0)"
    by (simp add: app_start_def mount_auth_def auth_mount_def handle_auth_def)
  show ?thesis using logout_returns_to_auth [OF h, of 5] by simp
qed

text \<open>
  C17: when the page loads with a non-empty persisted \<open>user_id\<close>, the client shows the
  chat screen at once with the non-guest session of that id, without any call to the
  server.
\<close>

theorem persisted_session_on_load:
  assumes "st user_id_key = Some u" "u \<noteq> []"
  shows "session (app_start now st) = Some \<lparr>sess_user = Some u, sess_guest = False\<rparr>
       \<and> screen (app_start now st) = Chat_screen (initial_chat now)"
  using assms by (simp add: app_start_def mount_auth_def auth_mount_def handle_auth_def truthy_def)

theorem persisted_session_on_load_witness:
  "session (app_start 0 [user_id_key \<mapsto> ''u1'']) = Some \<lparr>sess_user = Some ''u1'', sess_guest = False\<rparr>"
  using persisted_session_on_load [of "[user_id_key \<mapsto> ''u1'']" "''u1''" 0] by simp

text \<open>
  C18: logging out does not cancel a send suspended on its upload: once the upload
  resolves, the orphaned continuation still makes the chat call with the logged-out
  user's id and text, while the client shows no session.
\<close>

theorem orphan_send_continues_after_logout:
  assumes "screen s = Chat_screen c" "session s = Some ss" "phase c = Awaiting_upload q f" "js_trim q \<noteq> []"
    "inst_id s \<notin> orph_id ` set (orphans s)"
  shows "let s1 = fst (app_step t_out Logout s); r = app_step t_up (Orphan_ev (inst_id s) (Upload_settled (Resolved u))) s1
         in session (fst r) = None \<and> snd r = Some (inst_id s, Call_chat (sess_user ss) q (sess_guest ss))"
proof -
  have nf: "find (\<lambda>p. orph_id p = inst_id s) (orphans s) = None"
    using assms(5) by (auto simp: find_None_iff) (metis image_eqI)
  show ?thesis
    using assms nf
    by (simp add: handle_logout_def mount_auth_def auth_mount_def clear_storage_def Let_def orphan_step_def settle_orphan_def
        upload_done_def send_continue_def split: prod.splits)
qed

theorem orphan_send_continues_after_logout_witness:
  "snd (app_step 3 (Orphan_ev 2 (Upload_settled (Resolved \<lparr>up_processed = False, up_error = None\<rparr>)))
        (fst (app_step 2 Logout
          \<lparr>session = Some \<lparr>sess_user = Some ''u1'', sess_guest = False\<rparr>,
           screen = Chat_screen ((initial_chat 0)\<lparr>phase := Awaiting_upload ''hi'' \<lparr>file_name = ''x.pdf'', file_mime = ''application/pdf'', file_blob = 1\<rparr>\<rparr>),
           inst_id = 2, store = Map.empty, urls = empty_registry, orphans = []\<rparr>)))
   = Some (2, Call_chat (Some ''u1'') ''hi'' False)"
proof -
  let ?f = "\<lparr>file_name = ''x.pdf'', file_mime = ''application/pdf'', file_blob = 1\<rparr>"
  let ?c = "(initial_chat 0)\<lparr>phase := Awaiting_upload ''hi'' ?f\<rparr>"
  let ?ss = "\<lparr>sess_user = Some ''u1'', sess_guest = False\<rparr>"
  let ?s = "\<lparr>session = Some ?ss, screen = Chat_screen ?c, inst_id = 2, store = Map.empty, urls = empty_registry,
             orphans = []\<rparr>"
  have h1: "screen ?s = Chat_screen ?c" and h2: "session ?s = Some ?ss" and h3: "phase ?c = Awaiting_upload ''hi'' ?f"
    and h5: "inst_id ?s \<notin> orph_id ` set (orphans ?s)" by simp_all
  have h4: "js_trim ''hi'' \<noteq> []" by (simp add: js_trim_def js_ws_def)
  show ?thesis
    using orphan_send_continues_after_logout [OF h1 h2 h3 h4 h5, where t_out = 2 and t_up = 3
        and u = "\<lparr>up_processed = False, up_error = None\<rparr>"]
    unfolding Let_def by simp
qed

end
