(* ===== verification/Legacy.thy ===== *)
theory Legacy
  imports App
begin

text \<open>
  The bundled copy of an earlier version of the client, src/public/frontend_source.tsx.
  Its MediaPreview, ChatMessage and ChatScreen sections are the current files verbatim,
  so they are the definitions of ChatScreen.thy and Render.thy.  Three sections differ,
  and are modelled here: its api.ts (default base URL on port 8000, \<open>register\<close> without
  a name), its AuthScreen.tsx (no name field, no \<open>localStorage\<close>, no mount effect) and
  its pages/Index.tsx (the root, whose logout only clears the session).  The lemmas show
  that the current client refines this one: the same requests up to the name field and
  the default base URL, the same auth screen up to persistence, and the same system on
  every event but a reload.
\<close>

section \<open>api.ts\<close>

definition legacy_default_api_base :: js_str where
  "legacy_default_api_base = ''http://localhost:8000''"

definition legacy_api_base :: "js_opt_str \<Rightarrow> js_str" where
  "legacy_api_base vite_api_url = js_or_opt vite_api_url legacy_default_api_base"

datatype legacy_call =
    Legacy_register js_str js_str
  | Legacy_login js_str js_str
  | Legacy_guest
  | Legacy_chat js_opt_str js_str bool
  | Legacy_upload js_opt_str js_file bool

fun legacy_http_of_call :: "js_str \<Rightarrow> legacy_call \<Rightarrow> http_request" where
  "legacy_http_of_call base (Legacy_register email password) =
     \<lparr>req_method = ''POST'', req_url = base @ ''/auth/register'', req_headers = json_headers,
      req_body = Json_body (json_object [(''email'', Some (JStr email)), (''password'', Some (JStr password))])\<rparr>"
| "legacy_http_of_call base (Legacy_login email password) =
     \<lparr>req_method = ''POST'', req_url = base @ ''/auth/login'', req_headers = json_headers,
      req_body = Json_body (json_object [(''email'', Some (JStr email)), (''password'', Some (JStr password))])\<rparr>"
| "legacy_http_of_call base Legacy_guest =
     \<lparr>req_method = ''POST'', req_url = base @ ''/auth/guest'', req_headers = [], req_body = No_body\<rparr>"
| "legacy_http_of_call base (Legacy_chat uid query guest) =
     \<lparr>req_method = ''POST'', req_url = base @ ''/api/chat'', req_headers = json_headers,
      req_body = Json_body (json_object [(''user_id'', map_option JStr uid), (''query'', Some (JStr query)),
                                         (''is_guest'', Some (JBool guest))])\<rparr>"
| "legacy_http_of_call base (Legacy_upload uid f guest) =
     \<lparr>req_method = ''POST'', req_url = base @ ''/api/upload'', req_headers = [],
      req_body = Form_body [(''user_id'', Form_text (js_String uid)), (''file'', Form_blob f),
                            (''is_guest'', Form_text (bool_str guest))]\<rparr>"

text \<open>
  The call of the legacy \<open>api\<close> that corresponds to a call of the current one: the same
  method with the same arguments, the registration's name dropped.
\<close>

fun legacy_call_of :: "api_call \<Rightarrow> legacy_call" where
  "legacy_call_of (Call_register name email password) = Legacy_register email password"
| "legacy_call_of (Call_login email password) = Legacy_login email password"
| "legacy_call_of Call_guest = Legacy_guest"
| "legacy_call_of (Call_chat uid q g) = Legacy_chat uid q g"
| "legacy_call_of (Call_upload uid f g) = Legacy_upload uid f g"

section \<open>AuthScreen.tsx\<close>

record legacy_auth_state =
  la_email :: js_str
  la_password :: js_str
  la_loading :: bool
  la_error :: js_str
  la_pending :: "auth_pending option"

definition legacy_initial_auth :: legacy_auth_state where
  "legacy_initial_auth = \<lparr>la_email = [], la_password = [], la_loading = False, la_error = [], la_pending = None\<rparr>"

type_synonym legacy_auth_result = "legacy_auth_state \<times> legacy_call option \<times> auth_callback option"

definition legacy_start_call :: "auth_pending \<Rightarrow> legacy_call \<Rightarrow> legacy_auth_state \<Rightarrow> legacy_auth_result" where
  "legacy_start_call p c st = (st\<lparr>la_loading := True, la_error := [], la_pending := Some p\<rparr>, Some c, None)"

definition legacy_handle_register :: "legacy_auth_state \<Rightarrow> legacy_auth_result" where
  "legacy_handle_register st = legacy_start_call Pending_register (Legacy_register (la_email st) (la_password st)) st"

definition legacy_handle_login :: "legacy_auth_state \<Rightarrow> legacy_auth_result" where
  "legacy_handle_login st = legacy_start_call Pending_login (Legacy_login (la_email st) (la_password st)) st"

definition legacy_handle_guest :: "legacy_auth_state \<Rightarrow> legacy_auth_result" where
  "legacy_handle_guest st = legacy_start_call Pending_guest Legacy_guest st"

definition legacy_end_call :: "legacy_auth_state \<Rightarrow> legacy_auth_state" where
  "legacy_end_call st = st\<lparr>la_loading := False, la_pending := None\<rparr>"

text \<open>The rest of \<open>handleRegister\<close> and \<open>handleLogin\<close>: nothing is persisted.\<close>

definition legacy_credentials_settled :: "auth_response outcome \<Rightarrow> legacy_auth_state \<Rightarrow> legacy_auth_result" where
  "legacy_credentials_settled res st =
     (case res of
        Resolved r \<Rightarrow>
          if opt_truthy (ar_error r) then (legacy_end_call (st\<lparr>la_error := the (ar_error r)\<rparr>), None, None)
          else (legacy_end_call st, None, Some (ar_user_id r, False))
      | _ \<Rightarrow> (legacy_end_call (st\<lparr>la_error := connection_failed_text\<rparr>), None, None))"

definition legacy_guest_settled :: "auth_response outcome \<Rightarrow> legacy_auth_state \<Rightarrow> legacy_auth_result" where
  "legacy_guest_settled res st =
     (case res of
        Resolved r \<Rightarrow> (legacy_end_call st, None, Some (ar_user_id r, True))
      | _ \<Rightarrow> (legacy_end_call (st\<lparr>la_error := connection_failed_text\<rparr>), None, None))"

definition legacy_auth_settled :: "auth_response outcome \<Rightarrow> legacy_auth_state \<Rightarrow> legacy_auth_result" where
  "legacy_auth_settled res st =
     (case la_pending st of
        None \<Rightarrow> (st, None, None)
      | Some Pending_guest \<Rightarrow> legacy_guest_settled res st
      | Some _ \<Rightarrow> legacy_credentials_settled res st)"

definition legacy_submit_disabled :: "legacy_auth_state \<Rightarrow> bool" where
  "legacy_submit_disabled st \<longleftrightarrow> la_loading st \<or> \<not> truthy (la_email st) \<or> \<not> truthy (la_password st)"

datatype legacy_auth_event =
    L_set_email js_str
  | L_set_password js_str
  | L_click_login
  | L_click_register
  | L_click_guest
  | L_auth_settled "auth_response outcome"

primrec legacy_auth_step :: "legacy_auth_event \<Rightarrow> legacy_auth_state \<Rightarrow> legacy_auth_result" where
  "legacy_auth_step (L_set_email s) st = (st\<lparr>la_email := s\<rparr>, None, None)"
| "legacy_auth_step (L_set_password s) st = (st\<lparr>la_password := s\<rparr>, None, None)"
| "legacy_auth_step L_click_login st =
     (if legacy_submit_disabled st then (st, None, None) else legacy_handle_login st)"
| "legacy_auth_step L_click_register st =
     (if legacy_submit_disabled st then (st, None, None) else legacy_handle_register st)"
| "legacy_auth_step L_click_guest st =
     (if la_loading st then (st, None, None) else legacy_handle_guest st)"
| "legacy_auth_step (L_auth_settled res) st = legacy_auth_settled res st"

text \<open>Each legacy event is the current event of the same input (the name field is new).\<close>

primrec auth_event_of :: "legacy_auth_event \<Rightarrow> auth_event" where
  "auth_event_of (L_set_email s) = Set_email s"
| "auth_event_of (L_set_password s) = Set_password s"
| "auth_event_of L_click_login = Click_login"
| "auth_event_of L_click_register = Click_register"
| "auth_event_of L_click_guest = Click_guest"
| "auth_event_of (L_auth_settled res) = Auth_call_settled res"

text \<open>The legacy view of a current auth screen: its state without the name.\<close>

definition legacy_auth_of :: "auth_state \<Rightarrow> legacy_auth_state" where
  "legacy_auth_of a = \<lparr>la_email = auth_email a, la_password = auth_password a, la_loading = auth_loading a,
     la_error = auth_error a, la_pending = pending a\<rparr>"

section \<open>pages/Index.tsx\<close>

datatype legacy_screen = L_auth_screen legacy_auth_state | L_chat_screen chat_state

record legacy_app_state =
  l_session :: "session option"
  l_screen :: legacy_screen
  l_inst :: nat
  l_urls :: url_registry
  l_orphans :: "orphan list"

definition legacy_handle_auth :: "nat \<Rightarrow> js_opt_str \<Rightarrow> bool \<Rightarrow> legacy_app_state \<Rightarrow> legacy_app_state" where
  "legacy_handle_auth now uid g s =
     s\<lparr>l_session := Some \<lparr>sess_user = uid, sess_guest = g\<rparr>, l_screen := L_chat_screen (initial_chat now),
       l_inst := Suc (l_inst s)\<rparr>"

text \<open>A fresh auth screen, which has no mount effect.\<close>

definition legacy_mount_auth :: "legacy_app_state \<Rightarrow> legacy_app_state" where
  "legacy_mount_auth s = s\<lparr>l_screen := L_auth_screen legacy_initial_auth, l_inst := Suc (l_inst s)\<rparr>"

text \<open>\<open>handleLogout\<close>: \<open>setSession(null)\<close> only.\<close>

definition legacy_handle_logout :: "chat_state \<Rightarrow> legacy_app_state \<Rightarrow> legacy_app_state" where
  "legacy_handle_logout c s =
     (let orph = (case l_session s of
                    Some ss \<Rightarrow> if phase c \<noteq> Idle
                               then [\<lparr>orph_id = l_inst s, orph_user = sess_user ss, orph_guest = sess_guest ss,
                                      orph_chat = c\<rparr>]
                               else []
                  | None \<Rightarrow> [])
      in legacy_mount_auth (s\<lparr>l_session := None, l_orphans := l_orphans s @ orph\<rparr>))"

definition legacy_app_start :: legacy_app_state where
  "legacy_app_start = legacy_mount_auth \<lparr>l_session = None, l_screen = L_auth_screen legacy_initial_auth, l_inst = 0,
     l_urls = empty_registry, l_orphans = []\<rparr>"

datatype legacy_app_event =
    L_auth_ev legacy_auth_event
  | L_chat_ev chat_event
  | L_logout
  | L_reload
  | L_orphan_ev nat chat_event

primrec legacy_app_step ::
  "nat \<Rightarrow> legacy_app_event \<Rightarrow> legacy_app_state \<Rightarrow> legacy_app_state \<times> (nat \<times> legacy_call) option" where
  "legacy_app_step now (L_auth_ev e) s =
     (case l_screen s of
        L_auth_screen a \<Rightarrow>
          (case legacy_auth_step e a of
             (a', c, cb) \<Rightarrow>
               (let s1 = s\<lparr>l_screen := L_auth_screen a'\<rparr>
                in (case cb of None \<Rightarrow> s1 | Some (uid, g) \<Rightarrow> legacy_handle_auth now uid g s1),
                map_option (Pair (l_inst s)) c))
      | L_chat_screen _ \<Rightarrow> (s, None))"
| "legacy_app_step now (L_chat_ev e) s =
     (case (l_screen s, l_session s) of
        (L_chat_screen c, Some ss) \<Rightarrow>
          (case chat_step (sess_user ss) (sess_guest ss) now e c (l_urls s) of
             (c', r', call) \<Rightarrow> (s\<lparr>l_screen := L_chat_screen c', l_urls := r'\<rparr>,
                                map_option (\<lambda>x. (l_inst s, legacy_call_of x)) call))
      | _ \<Rightarrow> (s, None))"
| "legacy_app_step now L_logout s =
     (case l_screen s of L_chat_screen c \<Rightarrow> (legacy_handle_logout c s, None) | L_auth_screen _ \<Rightarrow> (s, None))"
| "legacy_app_step now L_reload s = (legacy_app_start, None)"
| "legacy_app_step now (L_orphan_ev i e) s =
     (case settle_orphan now i e (l_urls s) (l_orphans s) of
        (os, c) \<Rightarrow> (s\<lparr>l_orphans := os\<rparr>, map_option (apsnd legacy_call_of) c))"

section \<open>The correspondence\<close>

primrec app_event_of :: "legacy_app_event \<Rightarrow> app_event" where
  "app_event_of (L_auth_ev e) = Auth_ev (auth_event_of e)"
| "app_event_of (L_chat_ev e) = Chat_ev e"
| "app_event_of L_logout = Logout"
| "app_event_of L_reload = Reload"
| "app_event_of (L_orphan_ev i e) = Orphan_ev i e"

definition legacy_screen_of :: "screen \<Rightarrow> legacy_screen" where
  "legacy_screen_of v = (case v of Auth_screen a \<Rightarrow> L_auth_screen (legacy_auth_of a) | Chat_screen c \<Rightarrow> L_chat_screen c)"

text \<open>The legacy view of a current system state: everything but the storage.\<close>

definition legacy_of :: "app_state \<Rightarrow> legacy_app_state" where
  "legacy_of s = \<lparr>l_session = session s, l_screen = legacy_screen_of (screen s), l_inst = inst_id s,
     l_urls = urls s, l_orphans = orphans s\<rparr>"

text \<open>A request with one key removed from its JSON body.\<close>

definition drop_json_key :: "js_str \<Rightarrow> http_request \<Rightarrow> http_request" where
  "drop_json_key k r = r\<lparr>req_body := (case req_body r of Json_body kvs \<Rightarrow> Json_body (filter (\<lambda>kv. fst kv \<noteq> k) kvs)
                                        | b \<Rightarrow> b)\<rparr>"

section \<open>Lemmas\<close>

lemma legacy_auth_of_simps [simp]:
  "legacy_auth_of (a\<lparr>auth_name := n\<rparr>) = legacy_auth_of a"
  "legacy_auth_of (a\<lparr>auth_email := e\<rparr>) = (legacy_auth_of a)\<lparr>la_email := e\<rparr>"
  "legacy_auth_of (a\<lparr>auth_password := p\<rparr>) = (legacy_auth_of a)\<lparr>la_password := p\<rparr>"
  "legacy_auth_of (a\<lparr>auth_error := x\<rparr>) = (legacy_auth_of a)\<lparr>la_error := x\<rparr>"
  "legacy_auth_of (a\<lparr>auth_loading := b, pending := q\<rparr>) = (legacy_auth_of a)\<lparr>la_loading := b, la_pending := q\<rparr>"
  "legacy_auth_of (a\<lparr>auth_loading := b, auth_error := x, pending := q\<rparr>) = (legacy_auth_of a)\<lparr>la_loading := b, la_error := x, la_pending := q\<rparr>"
  "la_email (legacy_auth_of a) = auth_email a" "la_password (legacy_auth_of a) = auth_password a"
  "la_loading (legacy_auth_of a) = auth_loading a" "la_pending (legacy_auth_of a) = pending a"
  "legacy_auth_of initial_auth = legacy_initial_auth"
  by (simp_all add: legacy_auth_of_def initial_auth_def legacy_initial_auth_def)

lemma filter_json_object:
  "filter (\<lambda>kv. fst kv \<noteq> k) (json_object kvs) = json_object (filter (\<lambda>kv. fst kv \<noteq> k) kvs)"
  by (induction kvs) (auto simp: json_object_def List.map_filter_def)

lemma legacy_of_upd [simp]:
  "legacy_of (s\<lparr>screen := v, store := x\<rparr>) = (legacy_of s)\<lparr>l_screen := legacy_screen_of v\<rparr>"
  "legacy_of (s\<lparr>screen := v, urls := r\<rparr>) = (legacy_of s)\<lparr>l_screen := legacy_screen_of v, l_urls := r\<rparr>"
  "legacy_of (s\<lparr>orphans := os\<rparr>) = (legacy_of s)\<lparr>l_orphans := os\<rparr>"
  "legacy_of (handle_auth now uid g s) = legacy_handle_auth now uid g (legacy_of s)"
  "l_screen (legacy_of s) = legacy_screen_of (screen s)" "l_session (legacy_of s) = session s"
  "l_inst (legacy_of s) = inst_id s" "l_urls (legacy_of s) = urls s" "l_orphans (legacy_of s) = orphans s"
  "legacy_screen_of (Auth_screen a) = L_auth_screen (legacy_auth_of a)"
  "legacy_screen_of (Chat_screen c) = L_chat_screen c"
  by (simp_all add: legacy_of_def legacy_screen_of_def handle_auth_def legacy_handle_auth_def)

lemma legacy_of_logout:
  "legacy_of (handle_logout now c s) = legacy_handle_logout c (legacy_of s)"
  by (simp add: handle_logout_def legacy_handle_logout_def mount_auth_def legacy_mount_auth_def auth_mount_def
      clear_storage_def Let_def legacy_of_def legacy_screen_of_def split: option.splits)

lemma legacy_of_start:
  "auth_mount st = None \<Longrightarrow> legacy_of (app_start now st) = legacy_app_start"
  by (simp add: app_start_def legacy_app_start_def mount_auth_def legacy_mount_auth_def legacy_of_def
      legacy_screen_of_def)

text \<open>
  C26: the current auth screen refines the legacy one: on every input the legacy screen
  has, the legacy screen, started in the current state without its name, does what the
  current one does (same state up to the name, same call up to the name argument of
  \<open>register\<close>, same report to the root); the current screen's extra input, the name
  field, changes nothing else.  The only other difference is the storage.
\<close>

theorem auth_refines_legacy:
  "legacy_auth_step e (legacy_auth_of st) =
     (case auth_step (auth_event_of e) st sto of (st', sto', c, cb) \<Rightarrow> (legacy_auth_of st', map_option legacy_call_of c, cb))
   \<and> legacy_auth_of (fst (auth_step (Set_name n) st sto)) = legacy_auth_of st
   \<and> fst (snd (auth_step (Set_name n) st sto)) = sto \<and> snd (snd (auth_step (Set_name n) st sto)) = (None, None)"
proof -
  have "legacy_auth_step e (legacy_auth_of st) =
     (case auth_step (auth_event_of e) st sto of (st', sto', c, cb) \<Rightarrow> (legacy_auth_of st', map_option legacy_call_of c, cb))"
    by (cases e) (auto simp: auth_simps legacy_start_call_def legacy_handle_register_def legacy_handle_login_def
        legacy_handle_guest_def legacy_end_call_def legacy_credentials_settled_def legacy_guest_settled_def
        legacy_auth_settled_def legacy_submit_disabled_def submit_disabled_def guest_disabled_def
        split: option.splits auth_pending.splits outcome.splits)
  then show ?thesis by simp
qed

text \<open>
  C27: the current client refines the legacy one as a system: every event of the legacy
  client acts on the current state without its storage as the same event acts on the
  current state, with the same calls (up to the name of a registration), as long as the
  event is not a reload of a page whose storage holds a persisted id.
\<close>

theorem app_refines_legacy:
  assumes "e \<noteq> L_reload \<or> auth_mount (store s) = None"
  shows "legacy_app_step now e (legacy_of s)
       = (case app_step now (app_event_of e) s of (s', c) \<Rightarrow> (legacy_of s', map_option (apsnd legacy_call_of) c))"
proof (cases e)
  case (L_auth_ev ev)
  show ?thesis
  proof (cases "screen s")
    case (Auth_screen a)
    have "legacy_auth_step ev (legacy_auth_of a) =
       (case auth_step (auth_event_of ev) a (store s) of (a', sto', c, cb) \<Rightarrow> (legacy_auth_of a', map_option legacy_call_of c, cb))"
      by (cases ev) (auto simp: auth_simps legacy_start_call_def legacy_handle_register_def legacy_handle_login_def
          legacy_handle_guest_def legacy_end_call_def legacy_credentials_settled_def legacy_guest_settled_def
          legacy_auth_settled_def legacy_submit_disabled_def submit_disabled_def guest_disabled_def
          split: option.splits auth_pending.splits outcome.splits)
    with L_auth_ev Auth_screen show ?thesis
      by (auto simp: Let_def option.map_comp comp_def split: prod.splits option.splits)
  next
    case (Chat_screen c)
    with L_auth_ev show ?thesis by simp
  qed
next
  case (L_chat_ev ev)
  then show ?thesis
    by (auto simp: option.map_comp comp_def split: screen.splits option.splits prod.splits)
next
  case L_logout
  then show ?thesis by (simp add: legacy_of_logout split: screen.splits)
next
  case L_reload
  with assms show ?thesis by (simp add: legacy_of_start)
next
  case (L_orphan_ev i ev)
  then show ?thesis by (simp add: orphan_step_def split_beta)
qed

theorem app_refines_legacy_witness:
  "legacy_app_step 5 L_logout (legacy_of (app_start 0 [user_id_key \<mapsto> ''u1'']))
     = (case app_step 5 (app_event_of L_logout) (app_start 0 [user_id_key \<mapsto> ''u1'']) of
          (s', c) \<Rightarrow> (legacy_of s', map_option (apsnd legacy_call_of) c))"
  by (rule app_refines_legacy) simp

lemma legacy_http_same_base:
  "legacy_http_of_call b (legacy_call_of c) = drop_json_key ''name'' (http_of_call b c)"
  by (cases c) (simp_all add: drop_json_key_def filter_json_object)

lemma legacy_api_base_iff: "legacy_api_base v = api_base v \<longleftrightarrow> opt_truthy v"
  by (cases v rule: opt_truthy.cases)
     (simp_all add: legacy_api_base_def api_base_def legacy_default_api_base_def default_api_base_def js_or_def truthy_def)

text \<open>
  C28: each version's \<open>api\<close> uses its own base URL, \<open>VITE_API_URL\<close> or its default
  (port 5000 now, 8000 in the bundled copy).  When \<open>VITE_API_URL\<close> is set, the legacy
  request for a call is the current one with the \<open>name\<close> key removed from the JSON body,
  so only the registration differs; when it is unset, the same holds up to the base, and
  every request goes to a different URL.
\<close>

theorem http_refines_legacy:
  "(opt_truthy v \<longrightarrow>
      legacy_http_of_call (legacy_api_base v) (legacy_call_of c) = drop_json_key ''name'' (http_of_call (api_base v) c))
   \<and> (\<not> opt_truthy v \<longrightarrow>
      legacy_http_of_call (legacy_api_base v) (legacy_call_of c)
        = drop_json_key ''name'' (http_of_call (legacy_api_base v) c)
      \<and> req_url (legacy_http_of_call (legacy_api_base v) (legacy_call_of c)) \<noteq> req_url (http_of_call (api_base v) c))"
proof -
  have url: "req_url (legacy_http_of_call b (legacy_call_of c)) = b @ endpoint_path c" for b
    by (simp add: legacy_http_same_base drop_json_key_def http_of_call_url)
  show ?thesis
    using legacy_api_base_iff [of v] legacy_http_same_base [of "legacy_api_base v" c]
    by (auto simp: url http_of_call_url drop_json_key_def)
qed

theorem http_refines_legacy_witness:
  "req_url (legacy_http_of_call (legacy_api_base None) (legacy_call_of Call_guest)) = ''http://localhost:8000/auth/guest''
   \<and> req_url (http_of_call (api_base None) Call_guest) = ''http://localhost:5000/auth/guest''
   \<and> req_url (legacy_http_of_call (legacy_api_base None) (legacy_call_of Call_guest)) \<noteq> req_url (http_of_call (api_base None) Call_guest)"
proof -
  have "\<not> opt_truthy None" by simp
  with http_refines_legacy [of None Call_guest] show ?thesis
    by (simp add: legacy_api_base_def api_base_def legacy_default_api_base_def default_api_base_def)
qed

end
