(* ===== verification/Render.thy ===== *)
theory Render
  imports ChatScreen
begin

text \<open>
  The two presentational components: src/src/components/ChatMessage.tsx renders one
  message as a bubble, and src/src/components/MediaPreview.tsx renders the pending
  attachment.  A rendering is modelled as a value that records what is shown (which
  side, which avatar, which media element with which source, which text, whether a time
  is shown); class names and layout are not modelled.  The preview creates an object URL
  on every render and revokes it only in the load handlers of its media elements, so
  its rendering returns the updated URL registry and its load handler is a function of
  the registry.
\<close>

section \<open>ChatMessage\<close>

datatype side = Left_side | Right_side

datatype avatar = User_avatar | Bot_avatar

datatype media_view =
    Img_view js_str js_str
  | Video_view js_str
  | Audio_view js_str
  | File_chip js_str

record bubble =
  b_side :: side
  b_avatar :: avatar
  b_media :: "media_view option"
  b_text :: js_str
  b_time :: "js_str option"

text \<open>The media element for each of the four media types.\<close>

definition media_view_of :: "media \<Rightarrow> media_view" where
  "media_view_of m =
     (case media_kind m of
        Image \<Rightarrow> Img_view (media_url m) (media_name m)
      | Video \<Rightarrow> Video_view (media_url m)
      | Audio \<Rightarrow> Audio_view (media_url m)
      | File_media \<Rightarrow> File_chip (media_name m))"

text \<open>
  \<open>ChatMessage({content, isUser, timestamp, media})\<close>: the time line is rendered
  when \<open>timestamp\<close> is truthy; its text (\<open>toLocaleTimeString\<close>) is a function of the
  timestamp that is not modelled, so the view records the timestamp itself.
\<close>

definition chat_message_view :: "js_str \<Rightarrow> bool \<Rightarrow> js_opt_str \<Rightarrow> media option \<Rightarrow> bubble" where
  "chat_message_view txt user ts med =
     \<lparr>b_side = (if user then Right_side else Left_side),
      b_avatar = (if user then User_avatar else Bot_avatar),
      b_media = map_option media_view_of med,
      b_text = txt,
      b_time = (if opt_truthy ts then ts else None)\<rparr>"

text \<open>The message list of the chat screen: one bubble per message, in order.\<close>

definition message_list_view :: "chat_state \<Rightarrow> bubble list" where
  "message_list_view st =
     map (\<lambda>m. chat_message_view (content m) (is_user m) (Some (timestamp m)) (msg_media m)) (messages st)"

section \<open>MediaPreview\<close>

datatype preview_view =
    Preview_img js_str js_str
  | Preview_video js_str
  | Preview_audio js_str js_str
  | Preview_badge "js_str option" js_str

text \<open>\<open>file.type.split('/')[0]\<close>.\<close>

definition preview_type :: "js_file \<Rightarrow> js_str" where
  "preview_type f = hd (js_split (CHR ''/'') (file_mime f))"

text \<open>\<open>file.name.split('.').pop()\<close>, the text of the extension badge.\<close>

definition file_extension :: "js_file \<Rightarrow> js_str option" where
  "file_extension f = js_pop (js_split (CHR ''.'') (file_name f))"

text \<open>
  \<open>MediaPreview({file})\<close> as rendered once: a fresh object URL, then the element chosen
  by the MIME prefix; a type other than image, video and audio gets the extension badge.
\<close>

definition media_preview :: "js_file \<Rightarrow> url_registry \<Rightarrow> preview_view \<times> url_registry" where
  "media_preview f reg =
     (let (u, reg') = create_object_url f reg; t = preview_type f
      in (if t = ''image'' then Preview_img u (file_name f)
          else if t = ''video'' then Preview_video u
          else if t = ''audio'' then Preview_audio u (file_name f)
          else Preview_badge (file_extension f) (file_name f), reg'))"

text \<open>
  The \<open>onLoad\<close> / \<open>onLoadedData\<close> handler of the rendered element: the media elements
  revoke their URL; the badge has no element that loads, so nothing is revoked.
\<close>

fun preview_loaded :: "preview_view \<Rightarrow> url_registry \<Rightarrow> url_registry" where
  "preview_loaded (Preview_img u _) reg = revoke_object_url u reg"
| "preview_loaded (Preview_video u) reg = revoke_object_url u reg"
| "preview_loaded (Preview_audio u _) reg = revoke_object_url u reg"
| "preview_loaded (Preview_badge _ _) reg = reg"

text \<open>Which of the four renderings a preview of a file is, as a media type.\<close>

fun preview_media_type :: "preview_view \<Rightarrow> media_type" where
  "preview_media_type (Preview_img _ _) = Image"
| "preview_media_type (Preview_video _) = Video"
| "preview_media_type (Preview_audio _ _) = Audio"
| "preview_media_type (Preview_badge _ _) = File_media"


section \<open>Lemmas\<close>

text \<open>
  C19: every bubble of the message list of a reachable chat screen shows a time (all
  timestamps are non-empty: the server's when it sent a non-empty one, the ISO time of
  the client otherwise), and every image, video or audio element in it has a source URL
  that is live, so the attachment it shows is still available.
\<close>

theorem rendered_messages_show_time_and_live_media:
  assumes "chat_reachable uid g st reg" "b \<in> set (message_list_view st)"
  shows "b_time b \<noteq> None
       \<and> (\<forall>u n. b_media b = Some (Img_view u n) \<or> b_media b = Some (Video_view u) \<or> b_media b = Some (Audio_view u)
              \<longrightarrow> u \<in> dom (live_urls reg))"
proof -
  from assms(2) obtain m where m: "m \<in> set (messages st)"
    and b: "b = chat_message_view (content m) (is_user m) (Some (timestamp m)) (msg_media m)"
    by (auto simp: message_list_view_def)
  have ok: "timestamp m \<noteq> []" "\<And>md. msg_media m = Some md \<Longrightarrow> media_url md \<in> dom (live_urls reg)"
    using chat_reachable_msgs_ok [OF assms(1)] m by (auto simp: msgs_ok_def)
  show ?thesis
  proof (cases "msg_media m")
    case None
    with b ok show ?thesis by (simp add: chat_message_view_def truthy_def)
  next
    case (Some md)
    with b ok show ?thesis
      by (cases "media_kind md") (auto simp: chat_message_view_def media_view_of_def truthy_def)
  qed
qed

theorem rendered_messages_show_time_and_live_media_witness:
  "b_time (hd (message_list_view (initial_chat 0))) \<noteq> None"
proof -
  have r: "chat_reachable None False (initial_chat 0) empty_registry" by (rule chat_reachable.init)
  have m: "hd (message_list_view (initial_chat 0)) \<in> set (message_list_view (initial_chat 0))"
    by (simp add: message_list_view_def initial_chat_def)
  show ?thesis using rendered_messages_show_time_and_live_media [OF r m] by blast
qed

text \<open>
  C20: the preview's inline classification (\<open>file.type.split('/')[0]\<close> tested against
  image, video and audio) and the chat screen's \<open>getMediaType\<close> agree on every file:
  the preview shows a file as the kind of element its sent message will show.
\<close>

theorem preview_agrees_with_get_media_type:
  "preview_media_type (fst (media_preview f reg)) = get_media_type f"
  by (simp add: media_preview_def get_media_type_def preview_type_def Let_def split_beta)

text \<open>
  C21: the extension badge (\<open>file.name.split('.').pop()\<close>) is always defined and is the
  longest suffix of the file name that contains no dot: the name is what precedes it up
  to and including the last dot, followed by it (the whole name when there is no dot, the
  empty string when the name ends with a dot).
\<close>

theorem file_extension_suffix:
  "\<exists>ext. file_extension f = Some ext \<and> CHR ''.'' \<notin> set ext
       \<and> file_name f = rev (dropWhile (\<lambda>c. c \<noteq> CHR ''.'') (rev (file_name f))) @ ext"
proof -
  let ?ws = "js_split (CHR ''.'') (file_name f)"
  have "file_extension f = Some (last ?ws)"
    by (simp add: file_extension_def js_pop_nonempty)
  moreover have "CHR ''.'' \<notin> set (last ?ws)"
    by (rule js_split_pieces [of _ _ "file_name f"]) simp
  moreover have "file_name f = rev (dropWhile (\<lambda>c. c \<noteq> CHR ''.'') (rev (file_name f))) @ last ?ws"
    by (simp only: js_split_last rev_drop_take)
  ultimately show ?thesis by blast
qed

text \<open>
  C22: each render of the preview creates a live object URL for the file; the load
  handler of the rendered element releases it exactly when the file is an image, a video
  or an audio file: for any other file the URL is never revoked.
\<close>

theorem preview_url_lifecycle:
  assumes "media_preview f reg = (v, reg')"
  shows "live_urls reg' (url_of (next_url reg)) = Some (file_blob f)
       \<and> (live_urls (preview_loaded v reg') (url_of (next_url reg)) = None \<longleftrightarrow> get_media_type f \<noteq> File_media)"
proof -
  have v: "v = (let t = preview_type f in if t = ''image'' then Preview_img (url_of (next_url reg)) (file_name f)
          else if t = ''video'' then Preview_video (url_of (next_url reg))
          else if t = ''audio'' then Preview_audio (url_of (next_url reg)) (file_name f)
          else Preview_badge (file_extension f) (file_name f))"
   and r: "reg' = snd (create_object_url f reg)"
    using assms by (simp_all add: media_preview_def create_object_url_def Let_def)
  have live: "live_urls reg' (url_of (next_url reg)) = Some (file_blob f)"
    using r by (simp add: create_object_url_def)
  moreover have "live_urls (preview_loaded v reg') (url_of (next_url reg)) = None \<longleftrightarrow> get_media_type f \<noteq> File_media"
    using live by (simp add: v get_media_type_def preview_type_def Let_def revoke_object_url_def)
  ultimately show ?thesis by blast
qed

theorem preview_url_lifecycle_witness:
  "media_preview \<lparr>file_name = ''notes.pdf'', file_mime = ''application/pdf'', file_blob = 4\<rparr> empty_registry
     = (Preview_badge (Some ''pdf'') ''notes.pdf'', \<lparr>next_url = 1, live_urls = [url_of 0 \<mapsto> 4]\<rparr>)
   \<and> get_media_type \<lparr>file_name = ''notes.pdf'', file_mime = ''application/pdf'', file_blob = 4\<rparr> = File_media
   \<and> live_urls (preview_loaded (Preview_badge (Some ''pdf'') ''notes.pdf'') \<lparr>next_url = 1, live_urls = [url_of 0 \<mapsto> 4]\<rparr>)
       (url_of 0) = Some 4"
proof -
  let ?f = "\<lparr>file_name = ''notes.pdf'', file_mime = ''application/pdf'', file_blob = 4\<rparr>"
  have mp: "media_preview ?f empty_registry
     = (Preview_badge (Some ''pdf'') ''notes.pdf'', \<lparr>next_url = 1, live_urls = [url_of 0 \<mapsto> 4]\<rparr>)"
    by (simp add: media_preview_def create_object_url_def empty_registry_def preview_type_def file_extension_def)
  have gm: "get_media_type ?f = File_media"
    by (simp add: get_media_type_def)
  have "live_urls \<lparr>next_url = 1, live_urls = [url_of 0 \<mapsto> 4]\<rparr> (url_of (next_url empty_registry)) = Some (file_blob ?f)
       \<and> (live_urls (preview_loaded (Preview_badge (Some ''pdf'') ''notes.pdf'') \<lparr>next_url = 1, live_urls = [url_of 0 \<mapsto> 4]\<rparr>)
            (url_of (next_url empty_registry)) = None \<longleftrightarrow> get_media_type ?f \<noteq> File_media)"
    by (rule preview_url_lifecycle [OF mp])
  with mp gm show ?thesis by (simp add: empty_registry_def)
qed

end
