(* ===== verification/Views.thy ===== *)
theory Views
  imports Legacy Render
begin

text \<open>
  What the two screens render, as values: the JSX of src/src/components/ChatScreen.tsx
  (header, message list with its progress indicator, input area) and of
  src/src/components/AuthScreen.tsx (the form of the active tab, the guest button, the
  error line), and the form of the bundled legacy AuthScreen.  Only what a user sees or
  can operate is recorded: texts, which controls exist and which are disabled; class
  names, icons and layout are not.  The last section composes the chat screen with the
  re-rendering of its attachment preview, whose object URLs accumulate.
\<close>

section \<open>ChatScreen\<close>

record chat_view =
  cv_subtitle :: js_str
  cv_bubbles :: "bubble list"
  cv_thinking :: bool
  cv_preview :: "js_file option"
  cv_attach_disabled :: bool
  cv_input_disabled :: bool
  cv_input_value :: js_str
  cv_send_disabled :: bool

text \<open>
  The header shows \<open>Guest Session\<close> or \<open>Personalized Support\<close>; the \<open>Thinking...\<close>
  bubble follows the messages while \<open>loading\<close>; the preview is shown while a file is
  held; the paperclip and the input are disabled while loading, the send button as
  \<^const>\<open>ChatScreen.send_disabled\<close> says.
\<close>

definition chat_screen_view :: "bool \<Rightarrow> chat_state \<Rightarrow> chat_view" where
  "chat_screen_view guest st =
     \<lparr>cv_subtitle = (if guest then ''Guest Session'' else ''Personalized Support''),
      cv_bubbles = message_list_view st,
      cv_thinking = loading st,
      cv_preview = chat_file st,
      cv_attach_disabled = loading st,
      cv_input_disabled = loading st,
      cv_input_value = input st,
      cv_send_disabled = send_disabled st\<rparr>"

section \<open>AuthScreen\<close>

text \<open>The active tab of the uncontrolled \<open>Tabs\<close> (initially \<open>login\<close>).\<close>

datatype auth_tab = Login_tab | Register_tab

record form_input =
  fi_type :: js_str
  fi_placeholder :: js_str
  fi_value :: js_str

record button_view =
  bv_label :: js_str
  bv_disabled :: bool

record auth_view =
  av_inputs :: "form_input list"
  av_submit :: button_view
  av_guest :: button_view
  av_error :: "js_str option"

definition email_input :: "js_str \<Rightarrow> form_input" where
  "email_input v = \<lparr>fi_type = ''email'', fi_placeholder = ''Email'', fi_value = v\<rparr>"

definition password_input :: "js_str \<Rightarrow> form_input" where
  "password_input v = \<lparr>fi_type = ''password'', fi_placeholder = ''Password'', fi_value = v\<rparr>"

definition name_input :: "js_str \<Rightarrow> form_input" where
  "name_input v = \<lparr>fi_type = ''name'', fi_placeholder = ''Name'', fi_value = v\<rparr>"

definition submit_label :: "auth_tab \<Rightarrow> bool \<Rightarrow> js_str" where
  "submit_label tab busy =
     (case tab of Login_tab \<Rightarrow> if busy then ''Signing in...'' else ''Sign In''
      | Register_tab \<Rightarrow> if busy then ''Creating account...'' else ''Create Account'')"

definition error_line :: "js_str \<Rightarrow> js_str option" where
  "error_line e = (if truthy e then Some e else None)"

definition auth_screen_view :: "auth_tab \<Rightarrow> auth_state \<Rightarrow> auth_view" where
  "auth_screen_view tab st =
     \<lparr>av_inputs = (case tab of Login_tab \<Rightarrow> [] | Register_tab \<Rightarrow> [name_input (auth_name st)])
                  @ [email_input (auth_email st), password_input (auth_password st)],
      av_submit = \<lparr>bv_label = submit_label tab (auth_loading st), bv_disabled = submit_disabled st\<rparr>,
      av_guest = \<lparr>bv_label = ''Continue as Guest'', bv_disabled = guest_disabled st\<rparr>,
      av_error = error_line (auth_error st)\<rparr>"

text \<open>The legacy form: the same tabs, without the name input.\<close>

definition legacy_auth_screen_view :: "auth_tab \<Rightarrow> legacy_auth_state \<Rightarrow> auth_view" where
  "legacy_auth_screen_view tab st =
     \<lparr>av_inputs = [email_input (la_email st), password_input (la_password st)],
      av_submit = \<lparr>bv_label = submit_label tab (la_loading st), bv_disabled = legacy_submit_disabled st\<rparr>,
      av_guest = \<lparr>bv_label = ''Continue as Guest'', bv_disabled = la_loading st\<rparr>,
      av_error = error_line (la_error st)\<rparr>"

section \<open>Re-rendering the preview\<close>

text \<open>
  React renders ChatScreen again after every state update that changes its state, and
  each render with a held file renders \<open>{file && <MediaPreview file={file} />}\<close> anew,
  which calls \<open>URL.createObjectURL(file)\<close> again (MediaPreview.tsx, line 10).  A
  rendered step is a step of the chat screen followed by that render when the state
  changed (an update to an equal state is skipped).
\<close>

definition render_preview :: "chat_state \<Rightarrow> url_registry \<Rightarrow> url_registry" where
  "render_preview st reg = (case chat_file st of None \<Rightarrow> reg | Some f \<Rightarrow> snd (media_preview f reg))"

definition rendered_chat_step ::
  "js_opt_str \<Rightarrow> bool \<Rightarrow> nat \<Rightarrow> chat_event \<Rightarrow> chat_state \<Rightarrow> url_registry \<Rightarrow> chat_state \<times> url_registry \<times> api_call option" where
  "rendered_chat_step uid g now e st reg =
     (case chat_step uid g now e st reg of
        (st', reg', c) \<Rightarrow> (st', if st' = st then reg' else render_preview st' reg', c))"

text \<open>A run of rendered steps, the registry after it.\<close>

fun rendered_run ::
  "js_opt_str \<Rightarrow> bool \<Rightarrow> (nat \<times> chat_event) list \<Rightarrow> chat_state \<Rightarrow> url_registry \<Rightarrow> chat_state \<times> url_registry" where
  "rendered_run uid g [] st reg = (st, reg)"
| "rendered_run uid g ((t, e) # es) st reg =
     (case rendered_chat_step uid g t e st reg of (st', reg', c) \<Rightarrow> rendered_run uid g es st' reg')"

section \<open>The hidden file input\<close>

text \<open>
  The paperclip opens the dialog of the hidden \<open><input type="file">\<close>
  (\<open>fileInputRef.current?.click()\<close>, disabled while loading).  The input keeps its
  selection as DOM state, and the browser fires \<open>change\<close>, hence
  \<open>handleFileChange\<close>, only when a new selection differs from it; \<open>handleFileChange\<close>
  never resets \<open>e.target.value\<close>.  A \<open>Pick\<close> is the user choosing files in the dialog
  (a cancelled dialog is not modelled); \<open>Ui\<close> is any other event of the screen.
\<close>

datatype dom_event = Pick "js_file list" | Ui chat_event

definition dom_chat_step ::
  "js_opt_str \<Rightarrow> bool \<Rightarrow> nat \<Rightarrow> dom_event \<Rightarrow> chat_state \<times> js_file list \<times> url_registry
   \<Rightarrow> (chat_state \<times> js_file list \<times> url_registry) \<times> api_call option" where
  "dom_chat_step uid g now ev s =
     (case s of (st, cur, reg) \<Rightarrow>
       (case ev of
          Pick sel \<Rightarrow>
            if loading st \<or> sel = cur then ((st, cur, reg), None)
            else (case chat_step uid g now (Choose_files (Some sel)) st reg of (st', reg', c) \<Rightarrow> ((st', sel, reg'), c))
        | Ui e \<Rightarrow> (case chat_step uid g now e st reg of (st', reg', c) \<Rightarrow> ((st', cur, reg'), c))))"

text \<open>A run of such events, the state, the input's selection and the registry after it.\<close>

fun dom_run ::
  "js_opt_str \<Rightarrow> bool \<Rightarrow> (nat \<times> dom_event) list \<Rightarrow> chat_state \<times> js_file list \<times> url_registry
   \<Rightarrow> chat_state \<times> js_file list \<times> url_registry" where
  "dom_run uid g [] s = s"
| "dom_run uid g ((t, ev) # evs) s = dom_run uid g evs (fst (dom_chat_step uid g t ev s))"

section \<open>Lemmas\<close>

lemma media_preview_registry: "snd (media_preview f reg) = snd (create_object_url f reg)"
  by (simp add: media_preview_def Let_def split_beta)

lemma typing_step:
  assumes "chat_file st = Some f" "\<not> loading st" "s \<noteq> input st"
  shows "rendered_chat_step uid g t (Type_input s) st reg =
           (st\<lparr>input := s\<rparr>, snd (create_object_url f reg), None)"
proof -
  have "st\<lparr>input := s\<rparr> \<noteq> st" using assms(3) by (cases st) simp
  with assms show ?thesis by (simp add: rendered_chat_step_def render_preview_def media_preview_registry)
qed


text \<open>
  The legacy form is the current one without its name input: the current screen refines
  the legacy one in what it shows, as it does in what it does.
\<close>

lemma legacy_auth_screen_view_of:
  "legacy_auth_screen_view tab (legacy_auth_of st)
     = (auth_screen_view tab st)\<lparr>av_inputs := filter (\<lambda>i. fi_placeholder i \<noteq> ''Name'') (av_inputs (auth_screen_view tab st))\<rparr>"
  by (cases tab) (simp_all add: legacy_auth_screen_view_def auth_screen_view_def legacy_auth_of_def
      legacy_submit_disabled_def submit_disabled_def guest_disabled_def name_input_def email_input_def
      password_input_def)

lemma auth_screen_view_error: "av_error (auth_screen_view tab st) \<noteq> None \<longleftrightarrow> auth_error st \<noteq> []"
  by (simp add: auth_screen_view_def error_line_def truthy_def)

text \<open>
  C38: on a chat screen in its invariant (every reachable one), the \<open>Thinking...\<close>
  bubble is shown exactly when the last message is the user's, that is while a reply is
  awaited; and while it is shown, the paperclip, the input and the send button are all
  disabled, the input is empty and no preview is shown.
\<close>

theorem thinking_iff_awaiting_reply:
  assumes "chat_inv st"
  shows "(cv_thinking (chat_screen_view g st) \<longleftrightarrow> is_user (last (messages st)))
       \<and> (cv_thinking (chat_screen_view g st) \<longrightarrow>
           cv_attach_disabled (chat_screen_view g st) \<and> cv_input_disabled (chat_screen_view g st)
           \<and> cv_send_disabled (chat_screen_view g st) \<and> cv_input_value (chat_screen_view g st) = []
           \<and> cv_preview (chat_screen_view g st) = None)"
proof -
  let ?ms = "messages st"
  from assms have ne: "?ms \<noteq> []" and alt: "map is_user ?ms = map odd [0..<length ?ms]"
    and ld: "loading st \<longleftrightarrow> even (length ?ms)" and idle: "loading st \<longrightarrow> input st = [] \<and> chat_file st = None"
    by (simp_all add: chat_inv_def)
  have "is_user (last ?ms) = last (map is_user ?ms)" using ne by (simp add: last_map)
  also have "\<dots> = odd (length ?ms - 1)" using alt ne by (simp add: last_map)
  also have "\<dots> \<longleftrightarrow> loading st" using ne ld by (cases "length ?ms") auto
  finally have "loading st \<longleftrightarrow> is_user (last ?ms)" by simp
  with idle show ?thesis by (simp add: chat_screen_view_def send_disabled_def)
qed

theorem thinking_iff_awaiting_reply_witness:
  "(cv_thinking (chat_screen_view False (initial_chat 0)) \<longleftrightarrow> is_user (last (messages (initial_chat 0))))
   \<and> \<not> cv_thinking (chat_screen_view False (initial_chat 0))"
proof -
  have "chat_inv (initial_chat 0)" by (rule initial_chat_inv)
  from thinking_iff_awaiting_reply [OF this, of False] show ?thesis
    by (simp add: initial_chat_def chat_screen_view_def)
qed

text \<open>
  C36: every keystroke in the input while a file is attached leaks an object URL: typing
  n successive different values (a run of keystrokes, with no load event of the preview
  in between) creates n new URLs of the file's blob, all still live after the run, and no
  live URL is released.  Only one preview is shown; for a file
  that is not an image, video or audio no load handler ever revokes them (C22).
\<close>

theorem typing_with_attachment_leaks_urls:
  assumes "chat_file st = Some f" "\<not> loading st" "successively (\<noteq>) (input st # ss)" "registry_ok reg"
  shows "next_url (snd (rendered_run uid g (map (\<lambda>s. (t, Type_input s)) ss) st reg)) = next_url reg + length ss
       \<and> (\<forall>u b. live_urls reg u = Some b \<longrightarrow> live_urls (snd (rendered_run uid g (map (\<lambda>s. (t, Type_input s)) ss) st reg)) u = Some b)
       \<and> (\<forall>i < length ss. live_urls (snd (rendered_run uid g (map (\<lambda>s. (t, Type_input s)) ss) st reg)) (url_of (next_url reg + i))
                          = Some (file_blob f))"
  using assms
proof (induction ss arbitrary: st reg)
  case Nil
  then show ?case by simp
next
  case (Cons s ss)
  let ?reg1 = "snd (create_object_url f reg)"
  let ?st1 = "st\<lparr>input := s\<rparr>"
  have step: "rendered_chat_step uid g t (Type_input s) st reg = (?st1, ?reg1, None)"
    using Cons.prems by (intro typing_step) auto
  have ih: "next_url (snd (rendered_run uid g (map (\<lambda>s. (t, Type_input s)) ss) ?st1 ?reg1)) = next_url ?reg1 + length ss
       \<and> (\<forall>u b. live_urls ?reg1 u = Some b \<longrightarrow> live_urls (snd (rendered_run uid g (map (\<lambda>s. (t, Type_input s)) ss) ?st1 ?reg1)) u = Some b)
       \<and> (\<forall>i < length ss. live_urls (snd (rendered_run uid g (map (\<lambda>s. (t, Type_input s)) ss) ?st1 ?reg1)) (url_of (next_url ?reg1 + i))
                          = Some (file_blob f))"
    using Cons.prems create_object_url_ok [OF Cons.prems(4), of f] by (intro Cons.IH) auto
  have new: "live_urls ?reg1 (url_of (next_url reg)) = Some (file_blob f)" and nx: "next_url ?reg1 = Suc (next_url reg)"
    by (simp_all add: create_object_url_def)
  have old: "live_urls reg u = Some b \<Longrightarrow> live_urls ?reg1 u = Some b" for u b
    using create_object_url_fresh [OF Cons.prems(4), of f] by (auto simp: create_object_url_def)
  show ?case
  proof (intro conjI allI impI)
    show "next_url (snd (rendered_run uid g (map (\<lambda>s. (t, Type_input s)) (s # ss)) st reg)) = next_url reg + length (s # ss)"
      using step ih nx by simp
  next
    fix u b assume "live_urls reg u = Some b"
    then show "live_urls (snd (rendered_run uid g (map (\<lambda>s. (t, Type_input s)) (s # ss)) st reg)) u = Some b"
      using step ih old by simp
  next
    fix i assume i: "i < length (s # ss)"
    show "live_urls (snd (rendered_run uid g (map (\<lambda>s. (t, Type_input s)) (s # ss)) st reg)) (url_of (next_url reg + i))
            = Some (file_blob f)"
    proof (cases i)
      case 0
      then show ?thesis using step ih new by simp
    next
      case (Suc j)
      with i ih nx step show ?thesis by simp
    qed
  qed
qed

theorem typing_with_attachment_leaks_urls_witness:
  "next_url (snd (rendered_run None False (map (\<lambda>s. (1, Type_input s)) [''a'', ''ab''])
       ((initial_chat 0)\<lparr>chat_file := Some \<lparr>file_name = ''n.pdf'', file_mime = ''application/pdf'', file_blob = 5\<rparr>\<rparr>)
       empty_registry)) = 2
   \<and> live_urls (snd (rendered_run None False (map (\<lambda>s. (1, Type_input s)) [''a'', ''ab''])
       ((initial_chat 0)\<lparr>chat_file := Some \<lparr>file_name = ''n.pdf'', file_mime = ''application/pdf'', file_blob = 5\<rparr>\<rparr>)
       empty_registry)) (url_of 1) = Some 5"
proof -
  let ?f = "\<lparr>file_name = ''n.pdf'', file_mime = ''application/pdf'', file_blob = 5\<rparr>"
  let ?st = "(initial_chat 0)\<lparr>chat_file := Some ?f\<rparr>"
  have h1: "chat_file ?st = Some ?f" and h2: "\<not> loading ?st" by (simp_all add: initial_chat_def)
  have h3: "successively (\<noteq>) (input ?st # [''a'', ''ab''])" by (simp add: initial_chat_def)
  have h4: "registry_ok empty_registry" by (rule empty_registry_ok)
  from typing_with_attachment_leaks_urls [OF h1 h2 h3 h4, of None False 1] show ?thesis
    by (simp add: empty_registry_def)
qed

text \<open>
  C30: choosing the same file again is lost: picking a file attaches it, and after
  removing it another file can be attached, but picking the same file again, after
  removing it or after sending it once the send is over, fires no \<open>change\<close> and
  leaves no attachment.
\<close>

theorem same_file_reselection_lost:
  assumes "\<not> loading st" "chat_file st = None" "input st = []" "cur \<noteq> [f]" "h \<noteq> f"
  shows "chat_file (fst (dom_run uid g [(t, Pick [f])] (st, cur, reg))) = Some f
       \<and> chat_file (fst (dom_run uid g [(t, Pick [f]), (t, Ui Remove_file), (t, Pick [h])] (st, cur, reg))) = Some h
       \<and> chat_file (fst (dom_run uid g [(t, Pick [f]), (t, Ui Remove_file), (t, Pick [f])] (st, cur, reg))) = None
       \<and> \<not> loading (fst (dom_run uid g [(t, Pick [f]), (t, Ui Click_send), (t_up, Ui (Upload_settled (Resolved u)))]
                                  (st, cur, reg)))
       \<and> chat_file (fst (dom_run uid g [(t, Pick [f]), (t, Ui Click_send), (t_up, Ui (Upload_settled (Resolved u))),
                                        (t_up, Pick [f])] (st, cur, reg))) = None"
  using assms
  by (simp add: dom_chat_step_def handle_file_change_def send_disabled_def handle_send_def upload_done_def
      send_continue_def chat_simps split_beta)

theorem same_file_reselection_lost_witness:
  "chat_file (fst (dom_run None True [(1, Pick [\<lparr>file_name = ''a.pdf'', file_mime = ''application/pdf'', file_blob = 3\<rparr>]),
                                      (1, Ui Remove_file),
                                      (1, Pick [\<lparr>file_name = ''a.pdf'', file_mime = ''application/pdf'', file_blob = 3\<rparr>])]
                     (initial_chat 0, [], empty_registry))) = None"
proof -
  let ?f = "\<lparr>file_name = ''a.pdf'', file_mime = ''application/pdf'', file_blob = 3\<rparr>"
  let ?h = "\<lparr>file_name = ''b.pdf'', file_mime = ''application/pdf'', file_blob = 4\<rparr>"
  have h: "\<not> loading (initial_chat 0)" "chat_file (initial_chat 0) = None" "input (initial_chat 0) = []"
    "[] \<noteq> [?f]" "?h \<noteq> ?f" by (simp_all add: initial_chat_def)
  from same_file_reselection_lost [OF h, of None True 1 empty_registry] show ?thesis by simp
qed

end
