(* ===== verification/Spec2Isabelle.thy ===== *)
theory Spec2Isabelle
  imports Views
begin

text \<open>
  \<^bold>\<open>A verified model of the chat client in src/src.\<close>

  \<^bold>\<open>The program.\<close>  A React single-page client of a chat back end.
  \<^item> \<open>src/src/lib/api.ts\<close>: five calls to the back end (\<open>register\<close>, \<open>login\<close>,
    \<open>guestLogin\<close>, \<open>chat\<close>, \<open>upload\<close>), JSON or multipart POSTs whose bodies are
    returned without checking the HTTP status.
  \<^item> \<open>src/src/App.tsx\<close>: the root.  It holds the session (user id and guest flag), shows
    the auth screen without a session and the chat screen with one, and on logout clears
    \<open>localStorage\<close> and the session.
  \<^item> \<open>src/src/components/AuthScreen.tsx\<close>: the register / login / guest form.  On mount it
    logs in from a persisted \<open>user_id\<close>; each handler sets \<open>loading\<close>, awaits its call,
    and either calls \<open>onAuth\<close> or shows an error.
  \<^item> \<open>src/src/components/ChatScreen.tsx\<close>: the message list, the input and the
    attachment.  \<open>handleSend\<close> appends the user's message, awaits the upload of the
    attachment, then awaits the chat call and appends the reply (or an error message).
  \<^item> \<open>src/src/components/ChatMessage.tsx\<close> and \<open>MediaPreview.tsx\<close>: rendering of
    one message and of the pending attachment (which creates an object URL).

  \<^bold>\<open>The theories.\<close>
  \<^item> \<open>Prelude\<close>: the JavaScript primitives the code uses (truthiness, \<open>||\<close>,
    \<open>trim\<close>, \<open>split\<close>, \<open>join\<close>, \<open>pop\<close>, \<open>Number.prototype.toString\<close>) and their
    laws (split/join round trip, pieces of a split, decimal print/parse round trip).
  \<^item> \<open>Browser\<close>: the platform state the code touches: \<open>localStorage\<close> as a finite
    map, the object-URL registry of \<open>URL.createObjectURL\<close>/\<open>revokeObjectURL\<close> (a
    counter and the map of live URLs to blobs), \<open>File\<close> objects, and
    \<open>Date.prototype.toISOString\<close> (civil calendar from a millisecond clock; 24 characters
    up to the year 9999, the extended \<open>+YYYYYY\<close> form of 27 characters after).
  \<^item> \<open>Api\<close>: \<^typ>\<open>Api.api_call\<close> is one constructor per function of api.ts with its
    arguments; \<^const>\<open>Api.http_of_call\<close> is the request each sends (URL, method, headers,
    body, with \<open>JSON.stringify\<close> dropping undefined fields); the response interfaces are
    records and \<open>'a outcome\<close> is what an awaited call gives the caller: a rejected
    promise (\<open>Net_failure\<close>), a \<open>null\<close> JSON body (\<open>Resolved_null\<close>, on which a field
    access throws), or a body.
  \<^item> \<open>ChatScreen\<close>: \<^typ>\<open>ChatScreen.chat_state\<close> is the component's state hooks plus
    \<open>phase\<close>, the suspended continuation of \<open>handleSend\<close> (waiting on the upload or on
    the chat call).  \<open>handleSend\<close> is split at its awaits into
    \<^const>\<open>ChatScreen.handle_send\<close>, \<^const>\<open>ChatScreen.upload_done\<close> and
    \<^const>\<open>ChatScreen.chat_done\<close>; \<^const>\<open>ChatScreen.chat_step\<close> maps each DOM event
    and each settled call to the handler it runs, including the \<open>disabled\<close> guards of
    the JSX, and returns the call it issues.
  \<^item> \<open>AuthScreen\<close>: likewise, \<^const>\<open>AuthScreen.auth_step\<close> over
    \<^typ>\<open>AuthScreen.auth_state\<close>, with \<open>pending\<close> the awaited call, the mount effect
    \<^const>\<open>AuthScreen.auth_mount\<close>, and the callback to \<open>onAuth\<close> as an output.
  \<^item> \<open>App\<close>: \<^typ>\<open>App.app_state\<close> composes the session, the mounted screen (with an
    instance number), the storage, the URL registry and the orphans: continuations of a
    chat screen unmounted by logout while a send was suspended, which React still runs.
    \<^const>\<open>App.app_step\<close> routes events; \<open>Reload\<close> keeps only the storage.
  \<^item> \<open>Render\<close>: \<^const>\<open>Render.message_list_view\<close> and
    \<^const>\<open>Render.media_preview\<close> as values recording what is shown.
  \<^item> \<open>Legacy\<close>: the bundled earlier version, src/public/frontend_source.tsx.  Its
    MediaPreview, ChatMessage and ChatScreen sections are the current files verbatim and
    share their definitions; its api.ts (\<^const>\<open>Legacy.legacy_http_of_call\<close>), its
    AuthScreen (\<^const>\<open>Legacy.legacy_auth_step\<close>, no name, no persistence, no mount
    effect) and its pages/Index.tsx (\<^const>\<open>Legacy.legacy_app_step\<close>, logout without
    clearing storage) are modelled, and \<^const>\<open>Legacy.legacy_of\<close> (the current state
    without its storage) relates the two versions.
  \<^item> \<open>Views\<close>: the JSX of the two screens as values:
    \<^const>\<open>Views.chat_screen_view\<close> (header, message list, \<open>Thinking...\<close> bubble,
    input area with its disabled controls), \<^const>\<open>Views.auth_screen_view\<close> (the form
    of the active tab, the guest button, the error line) and the legacy form
    \<^const>\<open>Views.legacy_auth_screen_view\<close>.  It also composes the chat screen
    with its re-rendered preview: \<^const>\<open>Views.rendered_chat_step\<close> is a step of the
    chat screen followed, when the state changed, by the render of
    \<open>{file && <MediaPreview/>}\<close>, which creates a fresh object URL each time;
    \<^const>\<open>Views.dom_chat_step\<close> adds the hidden file input, whose selection is DOM
    state that fires \<open>change\<close> only when a new selection differs from it.
  \<^item> this theory: properties that span the screens and the platform.

  \<^bold>\<open>Modelling choices.\<close>  Each synchronous segment of a handler reads the clock once
  (\<open>Date.now()\<close> and \<open>new Date()\<close> in one segment give one value), so a step takes the
  clock as an argument.  A run or a reachable state lets the environment choose every
  clock value and every server answer, so the invariants hold for all of them.  Strings
  are lists of 8-bit characters.  React batches the state updates of one segment; the
  model applies them in source order to one state, which is what React renders.  No
  loop of the program is unbounded, so every definition is total and no fuel is used;
  the program has no loop of its own (its only iterations are \<open>map\<close> over the
  messages and the platform's \<open>split\<close>), so there is no termination claim to make
  beyond the totality of the definitions, and the liveness of a send (it ends once its
  calls settle) is stated instead.

  \<^bold>\<open>What the lemmas show.\<close>  Each screen's invariant holds in every reachable state
  (message alternation and the loading flag in the chat screen, the pending call in the
  auth screen, the session/view agreement in the root); every operation's result on each
  branch, errors included; which calls a run issues and in which order; the disabled
  guards that keep a busy screen from issuing calls; the well-formedness of every message
  (decimal id that parses back, non-empty content and timestamp) and the bound of one
  message and one call per event; the growth of the live object URLs under re-rendering
  (one per keystroke while a file is attached); that a suspended send ends once its calls settle; the
  agreement of the rendered view with the state (the \<open>Thinking...\<close> bubble exactly
  while a reply is awaited, every control disabled meanwhile); the lifecycle of object
  URLs; the decimal and split/join round trips of the Prelude.  Several theorems record
  where the code does not do what the spec says (listed as findings in the manifest): an upload
  failure skips the chat call, a guest login ignores a server error, an id-less
  registration persists \<open>"undefined"\<close>, message ids collide, two sends can be in
  flight across a logout, the same file cannot be attached twice in a row, an undefined
  user id is sent as \<open>"undefined"\<close> to the upload endpoint, and object URLs of sent
  and non-media attachments are never revoked.  The Legacy lemmas show that the current
  client refines the bundled earlier version: the same requests up to the registration's
  name and the default base URL (port 5000 against 8000 when \<open>VITE_API_URL\<close> is unset), the same auth screen up to persistence, the same system on every event but the
  reload of a page that holds a persisted id.

  \<^bold>\<open>Not modelled.\<close>  The UI library components imported from
  \<open>@/components/ui\<close> (not part of the repository), icons and styling; the browser's
  network stack (a call's answer is the environment's choice); the text of
  \<open>toLocaleTimeString\<close>; scrolling and focus effects (the \<open>scrollRef\<close> effect of ChatScreen); the setup
  instructions at the end of \<open>src/public/frontend_source.tsx\<close>, which are a comment.
  The MediaPreview, ChatMessage and ChatScreen sections of that file are the current
  files verbatim; they are modelled by the same definitions, which the manifest maps to
  the current files only.
\<close>

section \<open>Attachments across the screens\<close>

text \<open>
  The message invariant of the mounted chat screen, read in the composed state: every
  timestamp is non-empty and every attachment URL is live in the shared registry.
\<close>

definition app_msgs_ok :: "app_state \<Rightarrow> bool" where
  "app_msgs_ok s \<longleftrightarrow> (case screen s of Chat_screen c \<Rightarrow> msgs_ok c (urls s) | Auth_screen _ \<Rightarrow> True)"

lemma handle_auth_msgs_ok [simp]: "app_msgs_ok (handle_auth now uid g s)"
  by (simp add: app_msgs_ok_def handle_auth_def)

lemma mount_auth_msgs_ok [simp]: "app_msgs_ok (mount_auth now s)"
  by (cases "auth_mount (store s)") (auto simp: mount_auth_def app_msgs_ok_def handle_auth_def Let_def)

lemma orphan_step_frame:
  "screen (fst (orphan_step now i e s)) = screen s \<and> urls (fst (orphan_step now i e s)) = urls s
   \<and> session (fst (orphan_step now i e s)) = session s \<and> store (fst (orphan_step now i e s)) = store s"
  by (simp add: orphan_step_def split_beta)

lemma app_step_msgs_ok:
  assumes "app_msgs_ok s"
  shows "app_msgs_ok (fst (app_step now e s))"
proof (cases e)
  case (Auth_ev ev)
  show ?thesis
  proof (cases "screen s")
    case (Auth_screen a)
    obtain a' st' c cb where as: "auth_step ev a (store s) = (a', st', c, cb)"
      by (cases "auth_step ev a (store s)") auto
    show ?thesis
    proof (cases cb)
      case None
      with Auth_ev Auth_screen as show ?thesis by (simp add: app_msgs_ok_def)
    next
      case (Some x)
      with Auth_ev Auth_screen as show ?thesis by (cases x) simp
    qed
  next
    case (Chat_screen c)
    with Auth_ev assms show ?thesis by simp
  qed
next
  case (Chat_ev ev)
  show ?thesis
  proof (cases "screen s")
    case (Chat_screen c)
    show ?thesis
    proof (cases "session s")
      case (Some ss)
      have "msgs_ok c (urls s)" using assms Chat_screen by (simp add: app_msgs_ok_def)
      then have "msgs_ok (fst (chat_step (sess_user ss) (sess_guest ss) now ev c (urls s)))
                         (fst (snd (chat_step (sess_user ss) (sess_guest ss) now ev c (urls s))))"
        by (rule chat_step_msgs_ok)
      with Chat_ev Chat_screen Some show ?thesis by (simp add: app_msgs_ok_def split_beta)
    next
      case None
      with Chat_ev Chat_screen assms show ?thesis by simp
    qed
  next
    case (Auth_screen a)
    with Chat_ev assms show ?thesis by simp
  qed
next
  case Logout
  with assms show ?thesis by (simp add: handle_logout_def Let_def split: screen.splits)
next
  case Reload
  then show ?thesis by (simp add: app_start_def)
next
  case (Orphan_ev i ev)
  with assms orphan_step_frame [of now i ev s] show ?thesis
    by (simp add: app_msgs_ok_def split: screen.splits)
qed

lemma app_reachable_msgs_ok: "app_reachable s \<Longrightarrow> app_msgs_ok s"
proof (induction rule: app_reachable.induct)
  case (start t st)
  show ?case by (simp add: app_start_def)
next
  case (step s t e s' c)
  then show ?case using app_step_msgs_ok [OF step.IH, of t e] by simp
qed

text \<open>
  C25: logging out does not release the object URLs of the attachments of sent
  messages: every attachment URL of the chat screen is still live after the logout,
  although no screen shows it any more.
\<close>

theorem attachment_urls_outlive_logout:
  assumes "app_reachable s" "screen s = Chat_screen c" "m \<in> set (messages c)" "msg_media m = Some md"
  shows "media_url md \<in> dom (live_urls (urls (fst (app_step now Logout s))))
       \<and> session (fst (app_step now Logout s)) = None"
proof -
  have "msgs_ok c (urls s)" using app_reachable_msgs_ok [OF assms(1)] assms(2) by (simp add: app_msgs_ok_def)
  with assms(3,4) have "media_url md \<in> dom (live_urls (urls s))" by (auto simp: msgs_ok_def)
  moreover have "urls (fst (app_step now Logout s)) = urls s \<and> session (fst (app_step now Logout s)) = None"
    using assms(2) by (simp add: handle_logout_def mount_auth_def auth_mount_def clear_storage_def Let_def)
  ultimately show ?thesis by simp
qed

theorem attachment_urls_outlive_logout_witness:
  "let s = fst (app_step 2 (Chat_ev Click_send)
             (fst (app_step 1 (Chat_ev (Choose_files (Some [\<lparr>file_name = ''a.png'', file_mime = ''image/png'', file_blob = 7\<rparr>])))
               (app_start 0 [user_id_key \<mapsto> ''u1'']))))
   in url_of 0 \<in> dom (live_urls (urls (fst (app_step 3 Logout s)))) \<and> session (fst (app_step 3 Logout s)) = None"
proof -
  let ?f = "\<lparr>file_name = ''a.png'', file_mime = ''image/png'', file_blob = 7\<rparr>"
  let ?s0 = "app_start 0 [user_id_key \<mapsto> ''u1'']"
  let ?s1 = "fst (app_step 1 (Chat_ev (Choose_files (Some [?f]))) ?s0)"
  let ?s2 = "fst (app_step 2 (Chat_ev Click_send) ?s1)"
  have r0: "app_reachable ?s0" by (rule app_reachable.start)
  have r1: "app_reachable ?s1" by (rule app_reachable.step [OF r0 prod.collapse [symmetric]])
  have r2: "app_reachable ?s2" by (rule app_reachable.step [OF r1 prod.collapse [symmetric]])
  have c: "screen ?s2 = Chat_screen (fst (handle_send (Some ''u1'') False 2 ((initial_chat 0)\<lparr>chat_file := Some ?f\<rparr>) empty_registry))"
    by (simp add: app_start_def mount_auth_def auth_mount_def handle_auth_def handle_file_change_def send_disabled_def
        truthy_def split_beta initial_chat_def)
  let ?md = "\<lparr>media_kind = Image, media_url = url_of 0, media_name = ''a.png''\<rparr>"
  let ?m = "user_message 2 [] (Some ?md) (Some ?f)"
  have m: "?m \<in> set (messages (fst (handle_send (Some ''u1'') False 2 ((initial_chat 0)\<lparr>chat_file := Some ?f\<rparr>) empty_registry)))"
    by (simp add: handle_send_def create_object_url_def empty_registry_def append_msg_def initial_chat_def
        get_media_type_def js_trim_def)
  have md: "msg_media ?m = Some ?md" by (simp add: user_message_def)
  show ?thesis
    using attachment_urls_outlive_logout [OF r2 c m md, of 3] unfolding Let_def by simp
qed

section \<open>Sends in flight across a logout\<close>

text \<open>
  C34: the client can have two sends in flight at once, from every state whose chat screen
  has a send suspended on its chat call: the user logs out (the send goes on as an orphan,
  App.tsx does not cancel it), continues as a guest and sends non-blank text again.  The
  run issues the guest call and a second chat call, the orphan of the old user still
  waits for its answer, and the new chat screen is loading on its own chat call.
\<close>

theorem two_sends_in_flight:
  assumes "screen s = Chat_screen c" "session s = Some ss" "phase c = Awaiting_chat q" "js_trim x \<noteq> []"
  shows "let r = app_run [(t_out, Logout), (t_g, Auth_ev Click_guest), (t_a, Auth_ev (Auth_call_settled (Resolved a))),
                          (t_s, Chat_ev (Type_input x)), (t_s, Chat_ev Click_send)] s;
             s' = fst r
         in snd r = [(Suc (inst_id s), Call_guest), (Suc (Suc (inst_id s)), Call_chat (ar_user_id a) x True)]
          \<and> (\<exists>p \<in> set (orphans s'). orph_id p = inst_id s \<and> orph_user p = sess_user ss \<and> phase (orph_chat p) = Awaiting_chat q)
          \<and> (\<exists>c'. screen s' = Chat_screen c' \<and> loading c' \<and> phase c' = Awaiting_chat x)"
  using assms
  by (simp add: handle_logout_def mount_auth_def auth_mount_def clear_storage_def handle_auth_def
      guest_disabled_def handle_guest_def start_call_def auth_settled_def guest_settled_def end_call_def
      initial_auth_def initial_chat_def send_disabled_def handle_send_def send_continue_def chat_simps Let_def
      split_beta)

theorem two_sends_in_flight_witness:
  "snd (app_run [(5, Logout), (6, Auth_ev Click_guest),
                 (7, Auth_ev (Auth_call_settled (Resolved \<lparr>ar_user_id = Some ''g1'', ar_email = None, ar_error = None\<rparr>))),
                 (8, Chat_ev (Type_input ''yo'')), (8, Chat_ev Click_send)]
         \<lparr>session = Some \<lparr>sess_user = Some ''u1'', sess_guest = False\<rparr>,
          screen = Chat_screen ((initial_chat 0)\<lparr>loading := True, phase := Awaiting_chat ''hi''\<rparr>),
          inst_id = 2, store = Map.empty, urls = empty_registry, orphans = []\<rparr>)
   = [(Suc 2, Call_guest), (Suc (Suc 2), Call_chat (Some ''g1'') ''yo'' True)]"
proof -
  let ?c = "(initial_chat 0)\<lparr>loading := True, phase := Awaiting_chat ''hi''\<rparr>"
  let ?ss = "\<lparr>sess_user = Some ''u1'', sess_guest = False\<rparr>"
  let ?s = "\<lparr>session = Some ?ss, screen = Chat_screen ?c, inst_id = 2, store = Map.empty, urls = empty_registry,
             orphans = []\<rparr>"
  have h: "screen ?s = Chat_screen ?c" "session ?s = Some ?ss" "phase ?c = Awaiting_chat ''hi''" by simp_all
  have x: "js_trim ''yo'' \<noteq> []" by (simp add: js_trim_def js_ws_def)
  from two_sends_in_flight [OF h x, where t_out = 5 and t_g = 6 and t_a = 7 and t_s = 8
      and a = "\<lparr>ar_user_id = Some ''g1'', ar_email = None, ar_error = None\<rparr>"]
  show ?thesis unfolding Let_def by (elim conjE) (simp only: app_state.select_convs auth_response.select_convs)
qed

end
